theory Spec2Isabelle
  imports Complex_Main
begin

section \<open>JavaScript values\<close>

text \<open>
  The engine is TypeScript on Node. Its numbers are modelled exactly: byte counts, piece
  indices and timestamps as integers, rates and seconds as reals. Rounding of IEEE doubles
  is outside the model: a product or a quotient is the exact one, so \<open>getBufferConfig\<close>
  can differ from Node in the last bit of a result. The configuration that a tick or a
  seek reads from the torrent is an arbitrary record, so a statement about them covers the
  rounded numbers that the engine stores there. The special values that the code can
  really produce are kept: \<open>parseInt\<close> yields NaN on a string without digits, and a
  division by zero yields NaN or an infinity.
\<close>

text \<open>An integer-valued number that may be NaN (\<open>None\<close> is NaN).\<close>

type_synonym jsint = "int option"

text \<open>A real-valued number that may be NaN or infinite.\<close>

datatype jsnum = NaN | NegInf | PosInf | Num real

definition jsdiv :: "real \<Rightarrow> real \<Rightarrow> jsnum" where
  "jsdiv a b =
     (if b \<noteq> 0 then Num (a / b)
      else if a > 0 then PosInf else if a < 0 then NegInf else NaN)"

text \<open>\<open>a < b\<close> and \<open>a >= b\<close> on numbers: every comparison with NaN is false.\<close>

fun jslt :: "jsnum \<Rightarrow> jsnum \<Rightarrow> bool" where
  "jslt NaN b = False"
| "jslt a NaN = False"
| "jslt (Num a) (Num b) = (a < b)"
| "jslt (Num a) PosInf = True"
| "jslt (Num a) NegInf = False"
| "jslt NegInf NegInf = False"
| "jslt NegInf b = True"
| "jslt PosInf b = False"

fun jsge :: "jsnum \<Rightarrow> jsnum \<Rightarrow> bool" where
  "jsge NaN b = False"
| "jsge a NaN = False"
| "jsge (Num a) (Num b) = (a \<ge> b)"
| "jsge (Num a) PosInf = False"
| "jsge (Num a) NegInf = True"
| "jsge PosInf b = True"
| "jsge NegInf NegInf = True"
| "jsge NegInf b = False"

text \<open>Truthiness of a number, as \<open>x || 60\<close> tests it: NaN and 0 are falsy.\<close>

fun truthy :: "jsnum \<Rightarrow> bool" where
  "truthy NaN = False"
| "truthy (Num x) = (x \<noteq> 0)"
| "truthy PosInf = True"
| "truthy NegInf = True"

text \<open>\<open>x * 0.5\<close> and \<open>Math.round(x)\<close>.\<close>

fun jshalf :: "jsnum \<Rightarrow> jsnum" where
  "jshalf (Num x) = Num (x * 0.5)"
| "jshalf v = v"

fun jsround :: "jsnum \<Rightarrow> jsnum" where
  "jsround (Num x) = Num (of_int \<lfloor>x + 1 / 2\<rfloor>)"
| "jsround v = v"

subsection \<open>Strings\<close>

text \<open>\<open>String(n)\<close> for an integer.\<close>

definition digitChar :: "nat \<Rightarrow> char" where
  "digitChar d = ''0123456789'' ! d"

fun decimal :: "nat \<Rightarrow> string" where
  "decimal n = (if n < 10 then [digitChar n] else decimal (n div 10) @ [digitChar (n mod 10)])"

declare decimal.simps [simp del]

definition numToString :: "jsint \<Rightarrow> string" where
  "numToString v =
     (case v of
        None \<Rightarrow> ''NaN''
      | Some i \<Rightarrow> if i < 0 then CHR ''-'' # decimal (nat (- i)) else decimal (nat i))"

text \<open>
  \<open>parseInt(str, 10)\<close>: leading white space is skipped, a sign is read, then the longest
  run of decimal digits; with no digit the result is NaN. A header value reaches the
  handler as a string of code units below 256; the white space among them is the space,
  the characters 0x09 to 0x0D and the no-break space 0xA0.
\<close>

definition isWhite :: "char \<Rightarrow> bool" where
  "isWhite c =
     (c \<in> set [CHR '' '', CHR 0x09, CHR 0x0A, CHR 0x0B, CHR 0x0C, CHR 0x0D, CHR 0xA0])"

definition isDigit :: "char \<Rightarrow> bool" where
  "isDigit c = (48 \<le> (of_char c :: nat) \<and> (of_char c :: nat) \<le> 57)"

definition digitVal :: "char \<Rightarrow> int" where
  "digitVal c = int (of_char c) - 48"

definition parseInt :: "string \<Rightarrow> jsint" where
  "parseInt str =
     (let s = dropWhile isWhite str;
          neg = (case s of [] \<Rightarrow> False | c # cs \<Rightarrow> c = CHR ''-'');
          r = (case s of [] \<Rightarrow> s
               | c # cs \<Rightarrow> if c = CHR ''-'' \<or> c = CHR ''+'' then cs else s);
          ds = takeWhile isDigit r;
          n = foldl (\<lambda>acc c. acc * 10 + digitVal c) 0 ds
      in if ds = [] then None else Some (if neg then - n else n))"

text \<open>\<open>str.replace(/bytes=/, '')\<close>: the first occurrence of the pattern is removed.\<close>

fun removeFirst :: "string \<Rightarrow> string \<Rightarrow> string" where
  "removeFirst pat [] = []"
| "removeFirst pat (c # cs) =
     (if take (length pat) (c # cs) = pat then drop (length pat) (c # cs)
      else c # removeFirst pat cs)"

text \<open>\<open>str.split(d)\<close>: the empty string splits into one empty part.\<close>

fun splitOn :: "char \<Rightarrow> string \<Rightarrow> string list" where
  "splitOn d [] = [[]]"
| "splitOn d (c # cs) =
     (if c = d then [] # splitOn d cs
      else (case splitOn d cs of [] \<Rightarrow> [[c]] | p # ps \<Rightarrow> (c # p) # ps))"

text \<open>\<open>str.toLowerCase()\<close> on ASCII letters.\<close>

definition lowerChar :: "char \<Rightarrow> char" where
  "lowerChar c =
     (if 65 \<le> (of_char c :: nat) \<and> (of_char c :: nat) \<le> 90 then char_of ((of_char c :: nat) + 32)
      else c)"

definition toLowerCase :: "string \<Rightarrow> string" where
  "toLowerCase s = map lowerChar s"

section \<open>Configuration and state of the engine\<close>

definition MAX_BUFFER_SIZE_MB :: real where "MAX_BUFFER_SIZE_MB = 70"
definition BUFFER_BEHIND_SECONDS :: real where "BUFFER_BEHIND_SECONDS = 10"
definition HARD_LIMIT_BUFFER_MB :: real where "HARD_LIMIT_BUFFER_MB = 75"

datatype tier = T4K | T1080p_high | T1080p | T720p

record tierConfig =
  minBufferSeconds :: real
  maxBufferSeconds :: real
  criticalBufferSeconds :: real
  bitrateThreshold :: real

fun BUFFER_CONFIG :: "tier \<Rightarrow> tierConfig" where
  "BUFFER_CONFIG T4K =
     \<lparr>minBufferSeconds = 15, maxBufferSeconds = 45, criticalBufferSeconds = 5,
      bitrateThreshold = 50 * 1024 * 1024 / 8\<rparr>"
| "BUFFER_CONFIG T1080p_high =
     \<lparr>minBufferSeconds = 20, maxBufferSeconds = 60, criticalBufferSeconds = 8,
      bitrateThreshold = 20 * 1024 * 1024 / 8\<rparr>"
| "BUFFER_CONFIG T1080p =
     \<lparr>minBufferSeconds = 30, maxBufferSeconds = 90, criticalBufferSeconds = 10,
      bitrateThreshold = 8 * 1024 * 1024 / 8\<rparr>"
| "BUFFER_CONFIG T720p =
     \<lparr>minBufferSeconds = 45, maxBufferSeconds = 120, criticalBufferSeconds = 15,
      bitrateThreshold = 0\<rparr>"

text \<open>The object that \<open>getBufferConfig\<close> returns.\<close>

record bufferConfig =
  cfg_tier :: tier
  cfg_bytesPerSecond :: real
  cfg_behindBytes :: real
  cfg_aheadBytes :: real
  cfg_behindSeconds :: real
  cfg_aheadSeconds :: jsnum
  cfg_criticalBufferSeconds :: real
  cfg_estimatedDuration :: real

text \<open>The object that a scheduler tick publishes as \<open>torrent._bufferInfo\<close>.\<close>

record bufferInfo =
  bi_bufferedAheadSeconds :: jsnum
  bi_bufferSizeMB :: real
  bi_windowStart :: int
  bi_windowEnd :: int
  bi_currentPiece :: int
  bi_bufferedStart :: int
  bi_bufferedEnd :: int
  bi_qualityTier :: tier
  bi_paused :: bool
  bi_hardPaused :: bool

text \<open>
  A file of the torrent: its name, its byte offset in the torrent and its length.
  \<open>f_index\<close> is its position in \<open>torrent.files\<close>; it stands for the identity of the
  object, which the code compares with \<open>f !== file\<close>.
\<close>

record tfile =
  f_index :: nat
  f_name :: string
  f_offset :: nat
  f_length :: nat

text \<open>
  The torrent object of the engine, with the fields the code reads and writes.
  \<open>t_pieces\<close> is \<open>torrent.pieces\<close> (its length) when the array exists.
  \<open>t_chunks\<close> is \<open>torrent.store.store.chunks\<close> and \<open>t_mem\<close> is \<open>torrent.store.mem\<close>:
  a slot holds the byte length of its buffer, or nothing (null or undefined). A missing
  store reads as two empty arrays, as \<open>memoryStore?.chunks || []\<close> does.
  \<open>t_bitfield\<close> is the have-bitfield when it exists; \<open>get\<close> beyond its end is false.
  \<open>t_paused\<close> and \<open>t_hardPaused\<close> are the scheduler's own flags \<open>_paused\<close> and
  \<open>_hardPaused\<close> (undefined reads as false).
\<close>

record torrent =
  t_infoHash :: string
  t_pieceLength :: nat
  t_pieces :: "nat option"
  t_files :: "tfile list"
  t_hasCritical :: bool
  t_bitfield :: "bool list option"
  t_chunks :: "nat option list"
  t_mem :: "nat option list"
  t_paused :: bool
  t_hardPaused :: bool
  t_bufferConfig :: "bufferConfig option"
  t_bufferInfo :: "bufferInfo option"

text \<open>
  Commands that the engine code issues to the torrent client, to the remux child and to
  the runtime. They are external: the model records each call in the order it is made and
  takes it to return normally (most of the calls stand in \<open>try\<close> blocks whose handlers
  ignore a failure).
\<close>

datatype call =
    Deselect nat
  | Select nat
  | Critical int int
  | Pause
  | Resume
  | Remove string bool
  | KillFfmpeg
  | Gc

text \<open>
  The module-level variables, the calls made so far, and the torrents that the engine has
  forgotten without the client destroying them (\<open>orphans\<close>): their stores keep their
  buffers.
\<close>

record state =
  client :: bool
  currentTorrent :: "torrent option"
  currentFile :: "tfile option"
  currentPlaybackTime :: real
  currentPlaybackBytes :: jsint
  estimatedBitrate :: real
  lastBytePosition :: jsint
  lastByteTime :: int
  slidingWindowInterval :: bool
  statusUpdateInterval :: bool
  ffmpegCommand :: bool
  useTranscoding :: bool
  isTranscoding :: bool
  actualVideoDuration :: real
  calls :: "call list"
  orphans :: "torrent list"

section \<open>The raw HTTP range server\<close>

text \<open>
  The value of a response header: a string, a number, or a property that a lookup in an
  object literal found on \<open>Object.prototype\<close> (named by its key).
\<close>

datatype hval = HStr string | HNum jsint | HInherited string

text \<open>
  The body of a response: nothing, a text, or the engine read stream of the selected file,
  created with \<open>{start, end}\<close> or without options (the whole file).
\<close>

datatype body = NoBody | TextBody string | ReadStream "(jsint \<times> jsint) option"

record request =
  req_method :: string
  req_range :: "string option"

record response =
  res_status :: nat
  res_headers :: "(string \<times> hval) list"
  res_body :: body

definition VIDEO_MIME_TYPES :: "(string \<times> string) list" where
  "VIDEO_MIME_TYPES =
     [(''mp4'', ''video/mp4''), (''m4v'', ''video/mp4''), (''webm'', ''video/webm''),
      (''mkv'', ''video/x-matroska''), (''mov'', ''video/mp4''), (''avi'', ''video/x-msvideo''),
      (''wmv'', ''video/x-ms-wmv''), (''asf'', ''video/x-ms-asf''), (''flv'', ''video/x-flv''),
      (''mpg'', ''video/mpeg''), (''mpeg'', ''video/mpeg''), (''mpe'', ''video/mpeg''),
      (''m2v'', ''video/mpeg''), (''ts'', ''video/mp2t''), (''m2ts'', ''video/mp2t''),
      (''mts'', ''video/mp2t''), (''3gp'', ''video/3gpp''), (''3g2'', ''video/3gpp2''),
      (''ogv'', ''video/ogg''), (''ogg'', ''video/ogg''), (''vob'', ''video/x-ms-vob''),
      (''divx'', ''video/x-msvideo''), (''xvid'', ''video/x-msvideo''),
      (''rm'', ''application/vnd.rn-realmedia''),
      (''rmvb'', ''application/vnd.rn-realmedia-vbr'')]"

text \<open>
  \<open>VIDEO_MIME_TYPES[ext] || 'application/octet-stream'\<close>. The table is an object
  literal, so the lookup also finds what \<open>Object.prototype\<close> has under a lower-case
  name, \<open>constructor\<close> and \<open>__proto__\<close>; both are truthy.
\<close>

definition getContentType :: "string \<Rightarrow> hval" where
  "getContentType filename =
     (let ext = last (splitOn CHR ''.'' (toLowerCase filename))
      in case map_of VIDEO_MIME_TYPES ext of
           Some m \<Rightarrow> HStr m
         | None \<Rightarrow>
             if ext = ''constructor'' \<or> ext = ''__proto__'' then HInherited ext
             else HStr ''application/octet-stream'')"

definition baseHeaders :: "hval \<Rightarrow> (string \<times> hval) list" where
  "baseHeaders contentType =
     [(''Content-Type'', contentType), (''Accept-Ranges'', HStr ''bytes''),
      (''Access-Control-Allow-Origin'', HStr ''*''),
      (''Access-Control-Expose-Headers'', HStr ''Content-Length, Content-Range, Accept-Ranges''),
      (''Cache-Control'', HStr ''no-cache, no-store, must-revalidate''),
      (''Connection'', HStr ''keep-alive''), (''X-Content-Type-Options'', HStr ''nosniff'')]"

text \<open>The two numbers parsed from the Range header: \<open>start\<close> and \<open>requestedEnd\<close>.\<close>

definition rangeStart :: "string \<Rightarrow> jsint" where
  "rangeStart rng = parseInt (hd (splitOn CHR ''-'' (removeFirst ''bytes='' rng)))"

definition rangeRequestedEnd :: "string \<Rightarrow> int \<Rightarrow> jsint" where
  "rangeRequestedEnd rng fileSize =
     (let parts = splitOn CHR ''-'' (removeFirst ''bytes='' rng)
      in if 1 < length parts \<and> parts ! 1 \<noteq> [] then parseInt (parts ! 1)
         else Some (fileSize - 1))"

text \<open>\<open>Math.min(requestedEnd, fileSize - 1)\<close>: NaN when an argument is NaN.\<close>

definition rangeEnd :: "jsint \<Rightarrow> int \<Rightarrow> jsint" where
  "rangeEnd requestedEnd fileSize =
     (case requestedEnd of None \<Rightarrow> None | Some e \<Rightarrow> Some (min e (fileSize - 1)))"

text \<open>
  The test \<open>start >= fileSize || start < 0 || end < start\<close>. A comparison with NaN is
  false, so a NaN start or end passes the test.
\<close>

definition rangeRejected :: "jsint \<Rightarrow> jsint \<Rightarrow> int \<Rightarrow> bool" where
  "rangeRejected start end fileSize =
     (case start of
        None \<Rightarrow> False
      | Some s \<Rightarrow> s \<ge> fileSize \<or> s < 0 \<or> (case end of None \<Rightarrow> False | Some e \<Rightarrow> e < s))"

text \<open>\<open>end - start + 1\<close>.\<close>

definition chunkSize :: "jsint \<Rightarrow> jsint \<Rightarrow> jsint" where
  "chunkSize start end =
     (case (start, end) of (Some s, Some e) \<Rightarrow> Some (e - s + 1) | _ \<Rightarrow> None)"

text \<open>
  The bitrate estimator fed by a range request at time \<open>now\<close> (milliseconds): when the
  previous request is less than 5 s old and both differences are positive, the estimate
  is smoothed towards the instantaneous rate.
\<close>

definition updateEstimate :: "int \<Rightarrow> jsint \<Rightarrow> state \<Rightarrow> real" where
  "updateEstimate now start s =
     (case lastBytePosition s of
        None \<Rightarrow> estimatedBitrate s
      | Some lastPos \<Rightarrow>
          if lastPos > 0 \<and> lastByteTime s > 0 \<and> now - lastByteTime s < 5000 then
            (case start of
               None \<Rightarrow> estimatedBitrate s
             | Some st \<Rightarrow>
                 let bytesDiff = \<bar>st - lastPos\<bar>;
                     timeDiff = real_of_int (now - lastByteTime s) / 1000
                 in if bytesDiff > 0 \<and> timeDiff > 0 then
                      (let instantBitrate = real_of_int bytesDiff / timeDiff
                       in if estimatedBitrate s > 0
                          then estimatedBitrate s * 0.7 + instantBitrate * 0.3
                          else instantBitrate)
                    else estimatedBitrate s)
          else estimatedBitrate s)"

text \<open>
  The two branches of \<open>handleRawRequest\<close> for a selected file: the request with a
  Range header and the request without one. Each gives the response that is sent and the
  module state afterwards. \<open>now\<close> is \<open>Date.now()\<close>. The engine's
  \<open>createReadStream\<close> is taken to return a stream; a HEAD request ends after the headers.
\<close>

definition serveRange :: "int \<Rightarrow> request \<Rightarrow> state \<Rightarrow> tfile \<Rightarrow> string \<Rightarrow> response \<times> state" where
  "serveRange now req s file rng =
     (let fileSize = int (f_length file);
          hdrs = baseHeaders (getContentType (f_name file));
          start = rangeStart rng;
          requestedEnd = rangeRequestedEnd rng fileSize;
          end = rangeEnd requestedEnd fileSize
      in
      if rangeRejected start end fileSize then
        (\<lparr>res_status = 416,
          res_headers =
            (''Content-Range'', HStr (''bytes */'' @ numToString (Some fileSize))) # hdrs,
          res_body = NoBody\<rparr>, s)
      else
        (\<lparr>res_status = 206,
          res_headers =
            hdrs @
            [(''Content-Range'',
              HStr (''bytes '' @ numToString start @ ''-'' @ numToString end @ ''/''
                    @ numToString (Some fileSize))),
             (''Content-Length'', HNum (chunkSize start end))],
          res_body =
            (if req_method req = ''HEAD'' then NoBody else ReadStream (Some (start, end)))\<rparr>,
         s\<lparr>currentPlaybackBytes := start,
           estimatedBitrate := updateEstimate now start s,
           lastBytePosition := start,
           lastByteTime := now\<rparr>))"

definition serveWhole :: "request \<Rightarrow> state \<Rightarrow> tfile \<Rightarrow> response \<times> state" where
  "serveWhole req s file =
     (\<lparr>res_status = 200,
       res_headers =
         baseHeaders (getContentType (f_name file)) @
         [(''Content-Length'', HNum (Some (int (f_length file))))],
       res_body = (if req_method req = ''HEAD'' then NoBody else ReadStream None)\<rparr>,
      s)"

text \<open>
  \<open>handleRawRequest\<close>. The test \<open>if (range)\<close> is false for a missing header and for
  an empty one.
\<close>

definition handleRawRequest :: "int \<Rightarrow> request \<Rightarrow> state \<Rightarrow> response \<times> state" where
  "handleRawRequest now req s =
     (if req_method req = ''OPTIONS'' then
        (\<lparr>res_status = 200,
          res_headers =
            [(''Access-Control-Allow-Origin'', HStr ''*''),
             (''Access-Control-Allow-Methods'', HStr ''GET, HEAD, OPTIONS''),
             (''Access-Control-Allow-Headers'', HStr ''Range, Content-Type''),
             (''Access-Control-Max-Age'', HStr ''86400'')],
          res_body = NoBody\<rparr>, s)
      else
        (case currentFile s of
           None \<Rightarrow>
             (\<lparr>res_status = 404, res_headers = [(''Content-Type'', HStr ''text/plain'')],
               res_body = TextBody ''No file loaded''\<rparr>, s)
         | Some file \<Rightarrow>
             (case req_range req of
                None \<Rightarrow> serveWhole req s file
              | Some rng \<Rightarrow>
                  if rng = [] then serveWhole req s file else serveRange now req s file rng)))"

text \<open>The rule of the specification for a range \<open>s-e\<close> on a file of \<open>N\<close> bytes.\<close>

definition spec_range_valid :: "int \<Rightarrow> int \<Rightarrow> int \<Rightarrow> bool" where
  "spec_range_valid s e N = (0 \<le> s \<and> s \<le> e \<and> e < N)"

text \<open>The values of the module variables when the module is loaded.\<close>

definition initialState :: state where
  "initialState =
     \<lparr>client = False, currentTorrent = None, currentFile = None, currentPlaybackTime = 0,
      currentPlaybackBytes = Some 0, estimatedBitrate = 0, lastBytePosition = Some 0,
      lastByteTime = 0, slidingWindowInterval = False, statusUpdateInterval = False,
      ffmpegCommand = False, useTranscoding = False, isTranscoding = False,
      actualVideoDuration = 0, calls = [], orphans = []\<rparr>"

section \<open>The buffer configuration\<close>

definition detectQualityTier :: "nat \<Rightarrow> tier" where
  "detectQualityTier fileSizeBytes =
     (let fileSizeGB = real fileSizeBytes / (1024 * 1024 * 1024)
      in if fileSizeGB > 30 then T4K
         else if fileSizeGB > 15 then T1080p_high
         else if fileSizeGB > 5 then T1080p
         else T720p)"

definition maxBufferBytes :: real where
  "maxBufferBytes = MAX_BUFFER_SIZE_MB * 1024 * 1024"

text \<open>
  \<open>getBufferConfig\<close>. The thresholds \<open>10e9\<close>, \<open>5e9\<close>, \<open>2e9\<close> and \<open>500e6\<close> are written
  out. \<open>aheadSeconds\<close> is a quotient by \<open>bytesPerSecond\<close>, which is 0 for an empty file.
\<close>

definition getBufferConfig :: "nat \<Rightarrow> bufferConfig" where
  "getBufferConfig fileSizeBytes =
     (let tier = detectQualityTier fileSizeBytes;
          config = BUFFER_CONFIG tier;
          estimatedDuration =
            (if real fileSizeBytes > 10000000000 then 7200
             else if real fileSizeBytes > 5000000000 then 5400
             else if real fileSizeBytes > 2000000000 then 3600
             else if real fileSizeBytes > 500000000 then 2400
             else 1200);
          bytesPerSecond = real fileSizeBytes / estimatedDuration;
          desiredAheadBytes = maxBufferSeconds config * bytesPerSecond;
          behindBytes = BUFFER_BEHIND_SECONDS * bytesPerSecond;
          actualAheadBytes = min desiredAheadBytes (maxBufferBytes - behindBytes);
          actualAheadSeconds = jsdiv actualAheadBytes bytesPerSecond
      in \<lparr>cfg_tier = tier, cfg_bytesPerSecond = bytesPerSecond, cfg_behindBytes = behindBytes,
          cfg_aheadBytes = actualAheadBytes, cfg_behindSeconds = BUFFER_BEHIND_SECONDS,
          cfg_aheadSeconds = actualAheadSeconds,
          cfg_criticalBufferSeconds = criticalBufferSeconds config,
          cfg_estimatedDuration = estimatedDuration\<rparr>)"

section \<open>The sliding window scheduler\<close>

text \<open>
  One run of the interval callback of \<open>startSlidingWindow\<close> is a tick. Its constants are
  definitions of the same names; each takes the values it is computed from.
\<close>

text \<open>\<open>torrent._bufferConfig || getBufferConfig(file.length)\<close>\<close>

definition bufferConfigOf :: "torrent \<Rightarrow> tfile \<Rightarrow> bufferConfig" where
  "bufferConfigOf torrent file =
     (case t_bufferConfig torrent of Some c \<Rightarrow> c | None \<Rightarrow> getBufferConfig (f_length file))"

definition bytesPerSecond :: "state \<Rightarrow> bufferConfig \<Rightarrow> real" where
  "bytesPerSecond s cfg =
     (if estimatedBitrate s > 0 then estimatedBitrate s else cfg_bytesPerSecond cfg)"

text \<open>
  The read head: the byte offset of the last range request when it is positive, else the
  playback time times the rate, clamped to \<open>[0, file.length]\<close>. A NaN byte offset fails
  the test \<open>> 0\<close>.
\<close>

definition currentByte :: "state \<Rightarrow> tfile \<Rightarrow> real \<Rightarrow> int" where
  "currentByte s file bps =
     (let fromTime =
            (if currentPlaybackTime s > 0 then \<lfloor>currentPlaybackTime s * bps\<rfloor> else 0);
          cb = (case currentPlaybackBytes s of
                  None \<Rightarrow> fromTime
                | Some b \<Rightarrow> if b > 0 then b - int (f_offset file) else fromTime)
      in max 0 (min cb (int (f_length file))))"

definition currentPiece :: "nat \<Rightarrow> tfile \<Rightarrow> int \<Rightarrow> int" where
  "currentPiece pieceLength file cb =
     \<lfloor>real_of_int (int (f_offset file) + cb) / real pieceLength\<rfloor>"

definition filePieceStart :: "nat \<Rightarrow> tfile \<Rightarrow> int" where
  "filePieceStart pieceLength file = \<lfloor>real (f_offset file) / real pieceLength\<rfloor>"

definition filePieceEnd :: "nat \<Rightarrow> tfile \<Rightarrow> int" where
  "filePieceEnd pieceLength file =
     \<lceil>real (f_offset file + f_length file) / real pieceLength\<rceil> - 1"

definition behindBytes :: "real \<Rightarrow> real" where
  "behindBytes bps = min (BUFFER_BEHIND_SECONDS * bps) (maxBufferBytes * 0.1)"

definition aheadBytes :: "bufferConfig \<Rightarrow> real" where
  "aheadBytes cfg = min (maxBufferBytes * 0.9) (cfg_aheadBytes cfg)"

definition piecesBehind :: "nat \<Rightarrow> real \<Rightarrow> int" where
  "piecesBehind pieceLength bps = \<lceil>behindBytes bps / real pieceLength\<rceil>"

definition piecesAhead :: "nat \<Rightarrow> bufferConfig \<Rightarrow> int" where
  "piecesAhead pieceLength cfg = \<lceil>aheadBytes cfg / real pieceLength\<rceil>"

definition windowStart :: "nat \<Rightarrow> tfile \<Rightarrow> int \<Rightarrow> real \<Rightarrow> int" where
  "windowStart pieceLength file cp bps =
     max (filePieceStart pieceLength file) (cp - piecesBehind pieceLength bps)"

definition windowEnd :: "nat \<Rightarrow> tfile \<Rightarrow> int \<Rightarrow> bufferConfig \<Rightarrow> int" where
  "windowEnd pieceLength file cp cfg =
     min (filePieceEnd pieceLength file) (cp + piecesAhead pieceLength cfg)"

text \<open>
  The selection is reasserted: every other file is deselected, the streaming file selected,
  and the pieces from the read head on are marked critical.
\<close>

definition reselectCalls :: "torrent \<Rightarrow> tfile \<Rightarrow> call list" where
  "reselectCalls torrent file =
     map (\<lambda>f. Deselect (f_index f)) (filter (\<lambda>f. f_index f \<noteq> f_index file) (t_files torrent))
     @ [Select (f_index file)]"

definition criticalCalls :: "torrent \<Rightarrow> nat \<Rightarrow> int \<Rightarrow> int \<Rightarrow> real \<Rightarrow> call list" where
  "criticalCalls torrent totalPieces cp we bps =
     (if t_hasCritical torrent \<and> cp \<ge> 0 \<and> cp < int totalPieces then
        [Critical cp (min we (cp + \<lceil>(10 * bps) / real (t_pieceLength torrent)\<rceil>))]
      else [])"

subsection \<open>The piece store\<close>

text \<open>
  \<open>xs[i]\<close> for an array of slots: an index outside the array reads as undefined.
  \<open>clearSlot\<close> is \<open>if (xs[i]) xs[i] = null\<close>.
\<close>

definition slotAt :: "nat option list \<Rightarrow> int \<Rightarrow> nat option" where
  "slotAt xs i = (if 0 \<le> i \<and> nat i < length xs then xs ! nat i else None)"

definition clearSlot :: "nat option list \<Rightarrow> int \<Rightarrow> nat option list" where
  "clearSlot xs i = (if slotAt xs i \<noteq> None then xs[nat i := None] else xs)"

text \<open>The bytes of a slot as the tick counts them: \<open>chunks[i].length || pieceLength\<close>.\<close>

definition slotBytes :: "nat \<Rightarrow> nat option \<Rightarrow> nat" where
  "slotBytes pieceLength c =
     (case c of None \<Rightarrow> 0 | Some n \<Rightarrow> if n \<noteq> 0 then n else pieceLength)"

definition countBytes :: "nat \<Rightarrow> nat option list \<Rightarrow> nat" where
  "countBytes pieceLength xs = foldl (\<lambda>acc c. acc + slotBytes pieceLength c) 0 xs"

text \<open>The body of each eviction loop, on the pair of \<open>chunks\<close> and \<open>immediateMem\<close>.\<close>

definition evictAt :: "int \<Rightarrow> nat option list \<times> nat option list \<Rightarrow> nat option list \<times> nat option list" where
  "evictAt i st = (clearSlot (fst st) i, clearSlot (snd st) i)"

text \<open>
  The unconditional eviction of every tick: when \<open>chunks\<close> is not empty, the indices
  \<open>0 \<le> i < windowStart\<close> and then \<open>windowEnd + 1 \<le> i < chunks.length\<close>.
\<close>

definition evictOutsideWindow ::
    "int \<Rightarrow> int \<Rightarrow> nat option list \<times> nat option list \<Rightarrow> nat option list \<times> nat option list" where
  "evictOutsideWindow ws we st =
     (if length (fst st) > 0 then
        fold evictAt [we + 1 .. int (length (fst st)) - 1] (fold evictAt [0 .. ws - 1] st)
      else st)"

text \<open>The emergency loop of the hard limit: every index of \<open>chunks\<close> outside the window.\<close>

definition evictEmergency ::
    "int \<Rightarrow> int \<Rightarrow> nat option list \<times> nat option list \<Rightarrow> nat option list \<times> nat option list" where
  "evictEmergency ws we st =
     fold (\<lambda>i st'. if i < ws \<or> i > we then evictAt i st' else st')
       [0 .. int (length (fst st)) - 1] st"

subsection \<open>Hard limit\<close>

text \<open>What the tick reads from the runtime: the heap in use and whether \<open>global.gc\<close> exists.\<close>

record runtime =
  heapUsed :: nat
  hasGc :: bool

definition hardLimitExceeded :: "nat \<Rightarrow> runtime \<Rightarrow> bool" where
  "hardLimitExceeded storedChunksBytes rt =
     (real storedChunksBytes > HARD_LIMIT_BUFFER_MB * 1024 * 1024
      \<or> real (heapUsed rt) / (1024 * 1024) > 500)"

definition hardLimitPhase ::
    "nat \<Rightarrow> runtime \<Rightarrow> int \<Rightarrow> int \<Rightarrow> torrent \<times> call list \<Rightarrow> torrent \<times> call list" where
  "hardLimitPhase storedChunksBytes rt ws we tc =
     (if hardLimitExceeded storedChunksBytes rt then
        (let tc1 = (if \<not> t_hardPaused (fst tc)
                    then ((fst tc)\<lparr>t_hardPaused := True\<rparr>, snd tc @ [Pause])
                    else tc);
             st = evictEmergency ws we (t_chunks (fst tc1), t_mem (fst tc1))
         in ((fst tc1)\<lparr>t_chunks := fst st, t_mem := snd st\<rparr>,
             snd tc1 @ (if hasGc rt then [Gc] else [])))
      else tc)"

text \<open>The recount after the cleanup, over \<open>chunks\<close> only, and the resume from a hard pause.\<close>

definition actualMemoryBytes :: "torrent \<Rightarrow> nat" where
  "actualMemoryBytes torrent = countBytes (t_pieceLength torrent) (t_chunks torrent)"

definition hardResumePhase :: "torrent \<times> call list \<Rightarrow> torrent \<times> call list" where
  "hardResumePhase tc =
     (if t_hardPaused (fst tc) \<and> real (actualMemoryBytes (fst tc)) < maxBufferBytes * 0.8
      then ((fst tc)\<lparr>t_hardPaused := False\<rparr>, snd tc @ [Resume])
      else tc)"

subsection \<open>The buffered run and the soft pause\<close>

definition bitGet :: "bool list \<Rightarrow> int \<Rightarrow> bool" where
  "bitGet bits i = (0 \<le> i \<and> nat i < length bits \<and> bits ! nat i)"

function scanForward :: "bool list \<Rightarrow> int \<Rightarrow> int \<Rightarrow> int \<Rightarrow> int \<Rightarrow> int" where
  "scanForward bits i we totalPieces bufferedEnd =
     (if i \<le> we \<and> i < totalPieces then
        (if bitGet bits i then scanForward bits (i + 1) we totalPieces i else bufferedEnd)
      else bufferedEnd)"
  by pat_completeness auto
termination
  by (relation "measure (\<lambda>(bits, i, we, totalPieces, bufferedEnd). nat (we + 1 - i))") auto

function scanBackward :: "bool list \<Rightarrow> int \<Rightarrow> int \<Rightarrow> int \<Rightarrow> int" where
  "scanBackward bits i ws bufferedStart =
     (if i \<ge> ws \<and> i \<ge> 0 then
        (if bitGet bits i then scanBackward bits (i - 1) ws i else bufferedStart)
      else bufferedStart)"
  by pat_completeness auto
termination
  by (relation "measure (\<lambda>(bits, i, ws, bufferedStart). nat (i + 1))") auto

declare scanForward.simps [simp del]
declare scanBackward.simps [simp del]

definition bufferedEnd :: "torrent \<Rightarrow> nat \<Rightarrow> int \<Rightarrow> int \<Rightarrow> int" where
  "bufferedEnd torrent totalPieces cp we =
     (case t_bitfield torrent of
        None \<Rightarrow> cp
      | Some bits \<Rightarrow> scanForward bits cp we (int totalPieces) cp)"

definition bufferedStart :: "torrent \<Rightarrow> int \<Rightarrow> int \<Rightarrow> int" where
  "bufferedStart torrent cp ws =
     (case t_bitfield torrent of
        None \<Rightarrow> cp
      | Some bits \<Rightarrow> scanBackward bits cp ws cp)"

definition bufferedAheadSeconds :: "nat \<Rightarrow> int \<Rightarrow> int \<Rightarrow> real \<Rightarrow> jsnum" where
  "bufferedAheadSeconds pieceLength bEnd cp bps =
     (let bufferedAheadPieces = max 0 (bEnd - cp);
          bufferedAheadBytes = bufferedAheadPieces * int pieceLength
      in jsdiv (real_of_int bufferedAheadBytes) bps)"

text \<open>\<open>bufferConfig.aheadSeconds || 60\<close>\<close>

definition targetBufferSeconds :: "bufferConfig \<Rightarrow> jsnum" where
  "targetBufferSeconds cfg =
     (if truthy (cfg_aheadSeconds cfg) then cfg_aheadSeconds cfg else Num 60)"

definition isBufferFull :: "jsnum \<Rightarrow> bufferConfig \<Rightarrow> bool" where
  "isBufferFull ahead cfg = jsge ahead (targetBufferSeconds cfg)"

definition softControlPhase ::
    "bool \<Rightarrow> jsnum \<Rightarrow> bufferConfig \<Rightarrow> torrent \<times> call list \<Rightarrow> torrent \<times> call list" where
  "softControlPhase transcoding ahead cfg tc =
     (let resumeThreshold = jshalf (targetBufferSeconds cfg)
      in if isBufferFull ahead cfg \<and> \<not> t_paused (fst tc) \<and> \<not> transcoding
            \<and> \<not> t_hardPaused (fst tc)
         then ((fst tc)\<lparr>t_paused := True\<rparr>, snd tc @ [Pause])
         else if t_paused (fst tc) \<and> \<not> t_hardPaused (fst tc)
                 \<and> (jslt ahead resumeThreshold \<or> transcoding)
         then ((fst tc)\<lparr>t_paused := False\<rparr>, snd tc @ [Resume])
         else tc)"

subsection \<open>The tick\<close>

text \<open>
  The tick on a session: \<open>torrent\<close> and \<open>file\<close> are the current torrent and file,
  \<open>totalPieces\<close> the length of \<open>torrent.pieces\<close>. It gives the torrent after the tick and
  the calls made, in order: reselect, mark critical, count, evict, hard limit, recount and
  hard resume, scan the bitfield, soft pause or resume, publish the buffer info. The log
  line of the tick is left out.
\<close>

definition tickSession ::
    "runtime \<Rightarrow> state \<Rightarrow> torrent \<Rightarrow> tfile \<Rightarrow> nat \<Rightarrow> torrent \<times> call list" where
  "tickSession rt s torrent file totalPieces =
     (let pieceLength = t_pieceLength torrent;
          cfg = bufferConfigOf torrent file;
          bps = bytesPerSecond s cfg;
          cp = currentPiece pieceLength file (currentByte s file bps);
          ws = windowStart pieceLength file cp bps;
          we = windowEnd pieceLength file cp cfg;
          cs = reselectCalls torrent file @ criticalCalls torrent totalPieces cp we bps;
          storedChunksBytes =
            countBytes pieceLength (t_chunks torrent) + countBytes pieceLength (t_mem torrent);
          st = evictOutsideWindow ws we (t_chunks torrent, t_mem torrent);
          tc1 = (torrent\<lparr>t_chunks := fst st, t_mem := snd st\<rparr>, cs);
          tc2 = hardLimitPhase storedChunksBytes rt ws we tc1;
          tc3 = hardResumePhase tc2;
          bEnd = bufferedEnd (fst tc3) totalPieces cp we;
          bStart = bufferedStart (fst tc3) cp ws;
          ahead = bufferedAheadSeconds pieceLength bEnd cp bps;
          tc4 = softControlPhase (isTranscoding s) ahead cfg tc3;
          info = \<lparr>bi_bufferedAheadSeconds = jsround ahead,
                  bi_bufferSizeMB =
                    min (real (actualMemoryBytes (fst tc3)) / (1024 * 1024)) MAX_BUFFER_SIZE_MB,
                  bi_windowStart = ws, bi_windowEnd = we, bi_currentPiece = cp,
                  bi_bufferedStart = bStart, bi_bufferedEnd = bEnd,
                  bi_qualityTier = cfg_tier cfg,
                  bi_paused = t_paused (fst tc4), bi_hardPaused = t_hardPaused (fst tc4)\<rparr>
      in ((fst tc4)\<lparr>t_bufferInfo := Some info\<rparr>, snd tc4))"

text \<open>
  The interval callback: it returns at once without a torrent, without a file, without
  \<open>torrent.pieces\<close> or with a piece length of 0. An exception in the body is caught and
  ignored by the callback; the engine calls are taken to return normally, and nothing else
  in the body throws.
\<close>

definition tick :: "runtime \<Rightarrow> state \<Rightarrow> state" where
  "tick rt s =
     (case currentTorrent s of
        None \<Rightarrow> s
      | Some torrent \<Rightarrow>
          (case currentFile s of
             None \<Rightarrow> s
           | Some file \<Rightarrow>
               (case t_pieces torrent of
                  None \<Rightarrow> s
                | Some totalPieces \<Rightarrow>
                    if t_pieceLength torrent = 0 then s
                    else (let tc = tickSession rt s torrent file totalPieces
                          in s\<lparr>currentTorrent := Some (fst tc), calls := calls s @ snd tc\<rparr>))))"

section \<open>The control surface\<close>

subsection \<open>Playback position updates\<close>

text \<open>
  The handler of \<open>torrent:update-playback\<close>. A jump of more than 5 s is a seek: with a
  torrent and a file present, each pause flag that is set is cleared with a call of
  \<open>resume\<close>, and the pieces at the new position are marked critical. The piece length of
  a torrent with metadata is positive; the handler divides by it without a test.
\<close>

definition seekPiece :: "torrent \<Rightarrow> tfile \<Rightarrow> real \<Rightarrow> int" where
  "seekPiece torrent file time =
     (let bps = cfg_bytesPerSecond (bufferConfigOf torrent file);
          seekBytePos = \<lfloor>time * bps\<rfloor>
      in \<lfloor>real_of_int (int (f_offset file) + seekBytePos) / real (t_pieceLength torrent)\<rfloor>)"

definition criticalPieces :: "torrent \<Rightarrow> tfile \<Rightarrow> int" where
  "criticalPieces torrent file =
     min 20 \<lceil>(15 * cfg_bytesPerSecond (bufferConfigOf torrent file))
              / real (t_pieceLength torrent)\<rceil>"

definition seekCalls :: "torrent \<Rightarrow> tfile \<Rightarrow> real \<Rightarrow> call list" where
  "seekCalls torrent file time =
     (let sp = seekPiece torrent file time;
          totalPieces = (case t_pieces torrent of None \<Rightarrow> 0 | Some n \<Rightarrow> int n);
          endPiece = min (sp + criticalPieces torrent file) (totalPieces - 1)
      in if t_hasCritical torrent \<and> sp \<ge> 0 then [Critical sp endPiece] else [])"

definition updatePlayback :: "real \<Rightarrow> state \<Rightarrow> state" where
  "updatePlayback time s =
     (let wasSeek = \<bar>time - currentPlaybackTime s\<bar> > 5;
          s1 = s\<lparr>currentPlaybackTime := time\<rparr>
      in case currentTorrent s of
           None \<Rightarrow> s1
         | Some torrent \<Rightarrow>
             (case currentFile s of
                None \<Rightarrow> s1
              | Some file \<Rightarrow>
                  if wasSeek then
                    s1\<lparr>currentTorrent := Some (torrent\<lparr>t_hardPaused := False, t_paused := False\<rparr>),
                       calls := calls s
                                @ (if t_hardPaused torrent then [Resume] else [])
                                @ (if t_paused torrent then [Resume] else [])
                                @ seekCalls torrent file time\<rparr>
                  else s1))"

subsection \<open>Stop\<close>

text \<open>How the promise of an IPC handler settles.\<close>

datatype outcome = Resolved | Rejected

definition resetState :: "state \<Rightarrow> state" where
  "resetState s =
     s\<lparr>currentTorrent := None, currentFile := None, currentPlaybackTime := 0,
       currentPlaybackBytes := Some 0, estimatedBitrate := 0, lastBytePosition := Some 0,
       lastByteTime := 0, useTranscoding := False\<rparr>"

definition stopSlidingWindow :: "state \<Rightarrow> state" where
  "stopSlidingWindow s = s\<lparr>slidingWindowInterval := False\<rparr>"

definition stopStatusUpdates :: "state \<Rightarrow> state" where
  "stopStatusUpdates s = s\<lparr>statusUpdateInterval := False\<rparr>"

text \<open>
  What the handler of \<open>torrent:stop\<close> meets in its two external calls: whether
  \<open>ffmpegCommand.kill\<close> throws, and whether \<open>client.remove\<close> throws or destroys the
  torrent with its store and calls back.
\<close>

record stopEnv =
  killThrows :: bool
  removeThrows :: bool

text \<open>
  The handler of \<open>torrent:stop\<close>, an \<open>async\<close> function. The kill of the remux child
  stands outside any \<open>try\<close>: when it throws, the handler ends there and its promise is
  rejected. Otherwise the intervals are stopped and, with a torrent and a client, the
  torrent is removed with \<open>destroyStore: true\<close>; the state is reset when the client
  calls back, or at once when the call throws, and the promise resolves in both cases. A
  call of \<open>remove\<close> that throws has destroyed nothing: the torrent keeps its store, and
  the reset only makes the engine forget it. Without a torrent or without a client the
  handler returns and its promise resolves.
\<close>

definition torrentStop :: "stopEnv \<Rightarrow> state \<Rightarrow> outcome \<times> state" where
  "torrentStop env s =
     (if ffmpegCommand s \<and> killThrows env then
        (Rejected, s\<lparr>calls := calls s @ [KillFfmpeg]\<rparr>)
      else
        (let s1 = (if ffmpegCommand s
                   then s\<lparr>ffmpegCommand := False, calls := calls s @ [KillFfmpeg]\<rparr>
                   else s);
             s2 = stopStatusUpdates (stopSlidingWindow s1)
         in case currentTorrent s2 of
              None \<Rightarrow> (Resolved, s2)
            | Some torrent \<Rightarrow>
                if client s2 then
                  (let s3 = s2\<lparr>calls := calls s2 @ [Remove (t_infoHash torrent) True]\<rparr>
                   in if removeThrows env
                      then (Resolved, resetState (s3\<lparr>orphans := orphans s3 @ [torrent]\<rparr>))
                      else (Resolved, resetState s3))
                else (Resolved, s2)))"

text \<open>
  The piece bytes that are resident: the lengths of the buffers in the store of the
  current torrent and in the stores of the orphans.
\<close>

definition storeBytes :: "torrent \<Rightarrow> nat" where
  "storeBytes torrent =
     sum_list (map (\<lambda>c. case c of None \<Rightarrow> 0 | Some n \<Rightarrow> n) (t_chunks torrent))
     + sum_list (map (\<lambda>c. case c of None \<Rightarrow> 0 | Some n \<Rightarrow> n) (t_mem torrent))"

definition residentBytes :: "state \<Rightarrow> nat" where
  "residentBytes s =
     (case currentTorrent s of None \<Rightarrow> 0 | Some torrent \<Rightarrow> storeBytes torrent)
     + sum_list (map storeBytes (orphans s))"

section \<open>The values of a tick, named\<close>

text \<open>
  The constants of a tick as functions of the state it runs on, and the torrent and calls
  before the soft pause control. They name what \<open>tickSession\<close> computes, so that a
  statement about a tick can refer to it.
\<close>

definition tickBps :: "state \<Rightarrow> torrent \<Rightarrow> tfile \<Rightarrow> real" where
  "tickBps s torrent file = bytesPerSecond s (bufferConfigOf torrent file)"

definition tickCurrentPiece :: "state \<Rightarrow> torrent \<Rightarrow> tfile \<Rightarrow> int" where
  "tickCurrentPiece s torrent file =
     currentPiece (t_pieceLength torrent) file (currentByte s file (tickBps s torrent file))"

definition tickWindowStart :: "state \<Rightarrow> torrent \<Rightarrow> tfile \<Rightarrow> int" where
  "tickWindowStart s torrent file =
     windowStart (t_pieceLength torrent) file (tickCurrentPiece s torrent file) (tickBps s torrent file)"

definition tickWindowEnd :: "state \<Rightarrow> torrent \<Rightarrow> tfile \<Rightarrow> int" where
  "tickWindowEnd s torrent file =
     windowEnd (t_pieceLength torrent) file (tickCurrentPiece s torrent file) (bufferConfigOf torrent file)"

definition tickStoredBytes :: "torrent \<Rightarrow> nat" where
  "tickStoredBytes torrent =
     countBytes (t_pieceLength torrent) (t_chunks torrent)
     + countBytes (t_pieceLength torrent) (t_mem torrent)"

definition tickHard :: "runtime \<Rightarrow> state \<Rightarrow> torrent \<Rightarrow> tfile \<Rightarrow> nat \<Rightarrow> torrent \<times> call list" where
  "tickHard rt s torrent file totalPieces =
     hardResumePhase
       (hardLimitPhase (tickStoredBytes torrent) rt (tickWindowStart s torrent file) (tickWindowEnd s torrent file)
          (torrent\<lparr>t_chunks := fst (evictOutsideWindow (tickWindowStart s torrent file) (tickWindowEnd s torrent file) (t_chunks torrent, t_mem torrent)),
                    t_mem := snd (evictOutsideWindow (tickWindowStart s torrent file) (tickWindowEnd s torrent file) (t_chunks torrent, t_mem torrent))\<rparr>,
           reselectCalls torrent file
           @ criticalCalls torrent totalPieces (tickCurrentPiece s torrent file) (tickWindowEnd s torrent file) (tickBps s torrent file)))"

definition tickAhead :: "runtime \<Rightarrow> state \<Rightarrow> torrent \<Rightarrow> tfile \<Rightarrow> nat \<Rightarrow> jsnum" where
  "tickAhead rt s torrent file totalPieces =
     bufferedAheadSeconds (t_pieceLength torrent)
       (bufferedEnd (fst (tickHard rt s torrent file totalPieces)) totalPieces
          (tickCurrentPiece s torrent file) (tickWindowEnd s torrent file))
       (tickCurrentPiece s torrent file) (tickBps s torrent file)"

section \<open>The formulas of the specification\<close>


section \<open>Example sessions\<close>

text \<open>
  A torrent of six pieces of 16 KiB with one file, all pieces stored and all have-bits set,
  and the read head at byte 65536; the same session hard-paused.
\<close>

definition exFile :: tfile where
  "exFile = \<lparr>f_index = 0, f_name = ''a.mp4'', f_offset = 0, f_length = 98304\<rparr>"

definition exTorrent :: torrent where
  "exTorrent =
     \<lparr>t_infoHash = ''h'', t_pieceLength = 16384, t_pieces = Some 6, t_files = [exFile],
      t_hasCritical = True,
      t_bitfield = Some [True, True, True, True, True, True],
      t_chunks = [Some 16384, Some 16384, Some 16384, Some 16384, Some 16384, Some 16384],
      t_mem = [None, None, None, None, None, None],
      t_paused = False, t_hardPaused = False,
      t_bufferConfig = Some (getBufferConfig 98304), t_bufferInfo = None\<rparr>"

definition exState :: state where
  "exState =
     initialState\<lparr>client := True, currentTorrent := Some exTorrent, currentFile := Some exFile,
                  currentPlaybackBytes := Some 65536\<rparr>"

definition exPausedTorrent :: torrent where
  "exPausedTorrent = exTorrent\<lparr>t_hardPaused := True\<rparr>"

definition exPausedState :: state where
  "exPausedState = exState\<lparr>currentTorrent := Some exPausedTorrent\<rparr>"





text \<open>
  A file of 3600 MiB in 225 pieces of 16 MiB, with the pieces 0 to 6 stored (112 MiB) and
  the read head in piece 2; the same session hard-paused.
\<close>

definition hardFile :: tfile where
  "hardFile = \<lparr>f_index = 0, f_name = ''a.mp4'', f_offset = 0, f_length = 3774873600\<rparr>"

definition hardTorrent :: torrent where
  "hardTorrent =
     \<lparr>t_infoHash = ''h'', t_pieceLength = 16777216, t_pieces = Some 225, t_files = [hardFile],
      t_hasCritical = True, t_bitfield = None,
      t_chunks = [Some 16777216, Some 16777216, Some 16777216, Some 16777216, Some 16777216,
                  Some 16777216, Some 16777216],
      t_mem = [],
      t_paused = False, t_hardPaused = False,
      t_bufferConfig = Some (getBufferConfig 3774873600), t_bufferInfo = None\<rparr>"

definition hardState :: state where
  "hardState =
     initialState\<lparr>client := True, currentTorrent := Some hardTorrent, currentFile := Some hardFile,
                  currentPlaybackBytes := Some 33554432\<rparr>"

definition hardPausedTorrent :: torrent where
  "hardPausedTorrent = hardTorrent\<lparr>t_hardPaused := True\<rparr>"

definition hardPausedState :: state where
  "hardPausedState = hardState\<lparr>currentTorrent := Some hardPausedTorrent\<rparr>"

text \<open>A file of 60 GB in a fresh session.\<close>

definition bigFile :: tfile where
  "bigFile = \<lparr>f_index = 0, f_name = ''a.mkv'', f_offset = 0, f_length = 60000000000\<rparr>"

definition bigTorrent :: torrent where
  "bigTorrent =
     \<lparr>t_infoHash = ''h'', t_pieceLength = 16777216, t_pieces = Some 3577, t_files = [bigFile],
      t_hasCritical = True, t_bitfield = None, t_chunks = [], t_mem = [],
      t_paused = False, t_hardPaused = False,
      t_bufferConfig = Some (getBufferConfig 60000000000), t_bufferInfo = None\<rparr>"

definition bigState :: state where
  "bigState = initialState\<lparr>client := True, currentTorrent := Some bigTorrent, currentFile := Some bigFile\<rparr>"




text \<open>
  A file of 1 GiB that ends on a piece boundary (1024 pieces of 1 MiB), with the player at
  3000 s and no range request with a positive start so far.
\<close>

definition alignedFile :: tfile where
  "alignedFile = \<lparr>f_index = 0, f_name = ''a.mkv'', f_offset = 0, f_length = 1073741824\<rparr>"

definition alignedTorrent :: torrent where
  "alignedTorrent =
     \<lparr>t_infoHash = ''h'', t_pieceLength = 1048576, t_pieces = Some 1024, t_files = [alignedFile],
      t_hasCritical = True, t_bitfield = None, t_chunks = [], t_mem = [],
      t_paused = False, t_hardPaused = False,
      t_bufferConfig = Some (getBufferConfig 1073741824), t_bufferInfo = None\<rparr>"

definition alignedState :: state where
  "alignedState = initialState\<lparr>client := True, currentTorrent := Some alignedTorrent, currentFile := Some alignedFile,
                          currentPlaybackTime := 3000\<rparr>"










section \<open>Properties of the range server\<close>

subsection \<open>Parsing a well-formed Range header\<close>

lemma below_ten: "d < 10 \<Longrightarrow> d \<in> {0, 1, 2, 3, 4, 5, 6, 7, 8, 9 :: nat}"
  by auto

lemma isDigit_digitChar: "d < 10 \<Longrightarrow> isDigit (digitChar d)"
  using below_ten [of d] by (auto simp add: isDigit_def digitChar_def)

lemma digitVal_digitChar: "d < 10 \<Longrightarrow> digitVal (digitChar d) = int d"
  using below_ten [of d] by (auto simp add: digitVal_def digitChar_def)

lemma decimal_all_digits: "c \<in> set (decimal n) \<Longrightarrow> isDigit c"
proof (induction n arbitrary: c rule: decimal.induct)
  case (1 n)
  show ?case
  proof (cases "n < 10")
    case True
    with "1.prems" show ?thesis
      by (simp add: decimal.simps [of n] isDigit_digitChar)
  next
    case False
    with "1.prems" "1.IH" show ?thesis
      by (auto simp add: decimal.simps [of n] isDigit_digitChar)
  qed
qed

lemma decimal_nonempty: "decimal n \<noteq> []"
  by (subst decimal.simps) simp

lemma foldl_decimal:
  "foldl (\<lambda>acc c. acc * 10 + digitVal c) a (decimal n) = a * 10 ^ length (decimal n) + int n"
proof (induction n arbitrary: a rule: decimal.induct)
  case (1 n)
  show ?case
  proof (cases "n < 10")
    case True
    then show ?thesis
      by (simp add: decimal.simps [of n] digitVal_digitChar)
  next
    case False
    then have "foldl (\<lambda>acc c. acc * 10 + digitVal c) a (decimal n)
        = (a * 10 ^ length (decimal (n div 10)) + int (n div 10)) * 10 + int (n mod 10)"
      using "1.IH" [of a] by (simp add: decimal.simps [of n] digitVal_digitChar)
    also have "\<dots> = a * 10 ^ length (decimal n) + int n"
    proof -
      have "int (n div 10) * 10 + int (n mod 10) = int n"
        by (metis of_nat_add of_nat_mult of_nat_numeral div_mult_mod_eq)
      then show ?thesis
        using False by (simp add: decimal.simps [of n] algebra_simps)
    qed
    finally show ?thesis .
  qed
qed

lemma isDigit_not_white: "isDigit c \<Longrightarrow> \<not> isWhite c"
  by (auto simp add: isDigit_def isWhite_def)

lemma isDigit_not_sign: "isDigit c \<Longrightarrow> c \<noteq> CHR ''-'' \<and> c \<noteq> CHR ''+''"
  by (auto simp add: isDigit_def)

lemma parseInt_decimal: "parseInt (decimal n) = Some (int n)"
proof -
  obtain c cs where d: "decimal n = c # cs"
    using decimal_nonempty [of n] by (cases "decimal n") auto
  have c: "isDigit c" using decimal_all_digits [of c n] d by simp
  have tw: "takeWhile isDigit (decimal n) = decimal n"
    using decimal_all_digits by (simp add: takeWhile_eq_all_conv)
  have dw: "dropWhile isWhite (decimal n) = decimal n"
    using d isDigit_not_white [OF c] by simp
  show ?thesis
    using isDigit_not_sign [OF c] foldl_decimal [of 0 n] decimal_nonempty [of n] tw
    unfolding parseInt_def dw by (simp add: d Let_def)
qed

lemma removeFirst_prefix: "pat \<noteq> [] \<Longrightarrow> removeFirst pat (pat @ xs) = xs"
  by (cases pat) auto

lemma splitOn_none: "d \<notin> set xs \<Longrightarrow> splitOn d xs = [xs]"
  by (induction xs) auto

lemma splitOn_first: "d \<notin> set xs \<Longrightarrow> splitOn d (xs @ d # ys) = xs # splitOn d ys"
  by (induction xs) auto

lemma dash_notin_decimal: "CHR ''-'' \<notin> set (decimal n)"
  using decimal_all_digits [of "CHR ''-''" n] isDigit_not_sign [of "CHR ''-''"] by auto

lemma rangeStart_closed: "rangeStart (''bytes='' @ decimal a @ ''-'' @ rest) = Some (int a)"
  using removeFirst_prefix [of "''bytes=''" "decimal a @ ''-'' @ rest"]
    splitOn_first [OF dash_notin_decimal, of a rest]
  by (simp add: rangeStart_def parseInt_decimal)

lemma rangeRequestedEnd_closed:
  "rangeRequestedEnd (''bytes='' @ decimal a @ ''-'' @ decimal b) N = Some (int b)"
  using removeFirst_prefix [of "''bytes=''" "decimal a @ ''-'' @ decimal b"]
    splitOn_first [OF dash_notin_decimal, of a "decimal b"]
    splitOn_none [OF dash_notin_decimal, of b]
  by (simp add: rangeRequestedEnd_def parseInt_decimal decimal_nonempty)

lemma rangeRequestedEnd_open:
  "rangeRequestedEnd (''bytes='' @ decimal a @ ''-'') N = Some (N - 1)"
  using removeFirst_prefix [of "''bytes=''" "decimal a @ ''-''"]
    splitOn_first [OF dash_notin_decimal, of a "[]"]
  by (simp add: rangeRequestedEnd_def)

subsection \<open>Responses to range requests\<close>

lemma rangeHeader_nonempty: "''bytes='' @ rest \<noteq> []"
  by simp

lemma map_of_baseHeaders_CR: "map_of (baseHeaders ct) ''Content-Range'' = None"
  by (simp add: baseHeaders_def)

lemma map_of_baseHeaders_CL: "map_of (baseHeaders ct) ''Content-Length'' = None"
  by (simp add: baseHeaders_def)

lemma serveRange_parsed_status:
  assumes "rangeStart rng = Some (int a)"
      and "rangeRequestedEnd rng (int (f_length fl)) = Some e"
  shows "res_status (fst (serveRange now req s fl rng))
           = (if int a \<le> e \<and> a < f_length fl then 206 else 416)"
  using assms
  by (auto simp add: serveRange_def Let_def rangeEnd_def rangeRejected_def)

lemma serveRange_closed_status:
  assumes r: "rng = ''bytes='' @ decimal a @ ''-'' @ decimal b"
  shows "res_status (fst (serveRange now req s fl rng))
           = (if a \<le> b \<and> a < f_length fl then 206 else 416)"
proof -
  have st: "rangeStart rng = Some (int a)"
    unfolding r by (rule rangeStart_closed)
  have en: "rangeRequestedEnd rng (int (f_length fl)) = Some (int b)"
    unfolding r by (rule rangeRequestedEnd_closed)
  show ?thesis
    using serveRange_parsed_status [OF st en] by simp
qed

lemma serveRange_open_status:
  assumes r: "rng = ''bytes='' @ decimal a @ ''-''"
  shows "res_status (fst (serveRange now req s fl rng))
           = (if a < f_length fl then 206 else 416)"
proof -
  have st: "rangeStart rng = Some (int a)"
    unfolding r using rangeStart_closed [of a "[]"] by simp
  have en: "rangeRequestedEnd rng (int (f_length fl)) = Some (int (f_length fl) - 1)"
    unfolding r by (rule rangeRequestedEnd_open)
  show ?thesis
    using serveRange_parsed_status [OF st en] by auto
qed

lemma serveRange_416_header:
  assumes "res_status (fst (serveRange now req s fl rng)) = 416"
  shows "map_of (res_headers (fst (serveRange now req s fl rng))) ''Content-Range''
           = Some (HStr (''bytes */'' @ decimal (f_length fl)))"
  using assms
  by (auto simp add: serveRange_def Let_def numToString_def split: if_splits)

lemma handleRawRequest_range:
  assumes "req_method req \<noteq> ''OPTIONS''" "currentFile s = Some fl" "req_range req = Some rng" "rng \<noteq> []"
  shows "handleRawRequest now req s = serveRange now req s fl rng"
  using assms by (simp add: handleRawRequest_def)

text \<open>
  Claim C1, as the code has it. For a GET or HEAD request on a selected file of \<open>N\<close>
  bytes whose Range header is \<open>bytes=a-b\<close> with decimal numbers \<open>a\<close> and \<open>b\<close>, the
  answer is 416 exactly when \<open>a \<le> b\<close> and \<open>a < N\<close> do not both hold, and it is 206
  otherwise: the end is clamped to \<open>N - 1\<close> before the test, so an end at or beyond
  \<open>N\<close> is not rejected. For the open range \<open>bytes=a-\<close> the answer is 416 exactly when
  \<open>a \<ge> N\<close>. Every 416 answer to a request with a Range header carries
  \<open>Content-Range: bytes */N\<close>.
\<close>

theorem C1_range_rejected_iff:
  assumes m: "req_method req = ''GET'' \<or> req_method req = ''HEAD''"
      and f: "currentFile s = Some fl"
  shows "(req_range req = Some (''bytes='' @ decimal a @ ''-'' @ decimal b) \<longrightarrow>
            (res_status (fst (handleRawRequest now req s)) = 416 \<longleftrightarrow> \<not> (a \<le> b \<and> a < f_length fl)) \<and>
            (res_status (fst (handleRawRequest now req s)) \<noteq> 416 \<longrightarrow>
               res_status (fst (handleRawRequest now req s)) = 206)) \<and>
         (req_range req = Some (''bytes='' @ decimal a @ ''-'') \<longrightarrow>
            (res_status (fst (handleRawRequest now req s)) = 416 \<longleftrightarrow> f_length fl \<le> a) \<and>
            (res_status (fst (handleRawRequest now req s)) \<noteq> 416 \<longrightarrow>
               res_status (fst (handleRawRequest now req s)) = 206)) \<and>
         (req_range req \<noteq> None \<and> req_range req \<noteq> Some [] \<and> res_status (fst (handleRawRequest now req s)) = 416 \<longrightarrow>
            map_of (res_headers (fst (handleRawRequest now req s))) ''Content-Range''
              = Some (HStr (''bytes */'' @ decimal (f_length fl))))"
proof -
  have opt: "req_method req \<noteq> ''OPTIONS''" using m by auto
  have A: "req_range req = Some (''bytes='' @ decimal a @ ''-'' @ decimal b) \<Longrightarrow>
      res_status (fst (handleRawRequest now req s)) = (if a \<le> b \<and> a < f_length fl then 206 else 416)"
  proof -
    assume r: "req_range req = Some (''bytes='' @ decimal a @ ''-'' @ decimal b)"
    have "handleRawRequest now req s = serveRange now req s fl (''bytes='' @ decimal a @ ''-'' @ decimal b)"
      by (rule handleRawRequest_range [OF opt f r]) simp
    then show ?thesis
      using serveRange_closed_status [OF refl] by simp
  qed
  have B: "req_range req = Some (''bytes='' @ decimal a @ ''-'') \<Longrightarrow>
      res_status (fst (handleRawRequest now req s)) = (if a < f_length fl then 206 else 416)"
  proof -
    assume r: "req_range req = Some (''bytes='' @ decimal a @ ''-'')"
    have "handleRawRequest now req s = serveRange now req s fl (''bytes='' @ decimal a @ ''-'')"
      by (rule handleRawRequest_range [OF opt f r]) simp
    then show ?thesis
      using serveRange_open_status [OF refl] by simp
  qed
  have C: "req_range req \<noteq> None \<Longrightarrow> req_range req \<noteq> Some [] \<Longrightarrow> res_status (fst (handleRawRequest now req s)) = 416 \<Longrightarrow>
            map_of (res_headers (fst (handleRawRequest now req s))) ''Content-Range''
              = Some (HStr (''bytes */'' @ decimal (f_length fl)))"
  proof -
    assume a: "req_range req \<noteq> None" "req_range req \<noteq> Some []" "res_status (fst (handleRawRequest now req s)) = 416"
    then obtain rng where r: "req_range req = Some rng" "rng \<noteq> []" by auto
    show ?thesis
      using a(3) serveRange_416_header [where now = now and req = req and s = s and fl = fl and rng = rng]
      unfolding handleRawRequest_range [OF opt f r] by simp
  qed
  show ?thesis using A B C by auto
qed

text \<open>
  Claim C1 as stated fails: on a file of 100 bytes the range \<open>bytes=0-100\<close> is invalid by
  the rule \<open>0 \<le> s \<le> e < N\<close>, and the server answers 206.
\<close>

theorem C1_counterexample:
  "res_status (fst (handleRawRequest 0 \<lparr>req_method = ''GET'', req_range = Some ''bytes=0-100''\<rparr>
      (initialState\<lparr>currentFile := Some \<lparr>f_index = 0, f_name = ''a.mp4'', f_offset = 0, f_length = 100\<rparr>\<rparr>))) = 206
   \<and> \<not> spec_range_valid 0 100 100"
  by (simp add: handleRawRequest_def serveRange_def initialState_def rangeStart_def
      rangeRequestedEnd_def rangeEnd_def rangeRejected_def parseInt_def isWhite_def isDigit_def
      digitVal_def spec_range_valid_def Let_def)

lemma decimal_999999999: "decimal 999999999 = ''999999999''"
  by (simp add: decimal.simps digitChar_def)

lemma decimal_104857600: "decimal 104857600 = ''104857600''"
  by (simp add: decimal.simps digitChar_def)

lemma decimal_small: "decimal 0 = ''0''" "decimal 1023 = ''1023''" "decimal 4096 = ''4096''"
  by (simp_all add: decimal.simps digitChar_def)

text \<open>
  The theorem of C1 at the scenario of the specification, \<open>Range: bytes=999999999-\<close> on
  a file of 100 MiB, and at the ranges \<open>bytes=0-4096\<close> and \<open>bytes=1023-0\<close> on a file of
  4096 bytes.
\<close>

theorem C1_witness:
  "res_status (fst (handleRawRequest 0 \<lparr>req_method = ''GET'', req_range = Some ''bytes=999999999-''\<rparr>
      (initialState\<lparr>currentFile := Some \<lparr>f_index = 0, f_name = ''a.mp4'', f_offset = 0, f_length = 104857600\<rparr>\<rparr>))) = 416
   \<and> map_of (res_headers (fst (handleRawRequest 0 \<lparr>req_method = ''GET'', req_range = Some ''bytes=999999999-''\<rparr>
      (initialState\<lparr>currentFile := Some \<lparr>f_index = 0, f_name = ''a.mp4'', f_offset = 0, f_length = 104857600\<rparr>\<rparr>))))
        ''Content-Range'' = Some (HStr ''bytes */104857600'')
   \<and> res_status (fst (handleRawRequest 0 \<lparr>req_method = ''HEAD'', req_range = Some ''bytes=0-4096''\<rparr>
      (initialState\<lparr>currentFile := Some \<lparr>f_index = 0, f_name = ''a.mp4'', f_offset = 0, f_length = 4096\<rparr>\<rparr>))) = 206
   \<and> res_status (fst (handleRawRequest 0 \<lparr>req_method = ''GET'', req_range = Some ''bytes=1023-0''\<rparr>
      (initialState\<lparr>currentFile := Some \<lparr>f_index = 0, f_name = ''a.mp4'', f_offset = 0, f_length = 4096\<rparr>\<rparr>))) = 416"
  using C1_range_rejected_iff [where req = "\<lparr>req_method = ''GET'', req_range = Some ''bytes=999999999-''\<rparr>"
      and s = "initialState\<lparr>currentFile := Some \<lparr>f_index = 0, f_name = ''a.mp4'', f_offset = 0, f_length = 104857600\<rparr>\<rparr>"
      and fl = "\<lparr>f_index = 0, f_name = ''a.mp4'', f_offset = 0, f_length = 104857600\<rparr>"
      and a = 999999999 and b = 0 and now = 0]
    C1_range_rejected_iff [where req = "\<lparr>req_method = ''HEAD'', req_range = Some ''bytes=0-4096''\<rparr>"
      and s = "initialState\<lparr>currentFile := Some \<lparr>f_index = 0, f_name = ''a.mp4'', f_offset = 0, f_length = 4096\<rparr>\<rparr>"
      and fl = "\<lparr>f_index = 0, f_name = ''a.mp4'', f_offset = 0, f_length = 4096\<rparr>"
      and a = 0 and b = 4096 and now = 0]
    C1_range_rejected_iff [where req = "\<lparr>req_method = ''GET'', req_range = Some ''bytes=1023-0''\<rparr>"
      and s = "initialState\<lparr>currentFile := Some \<lparr>f_index = 0, f_name = ''a.mp4'', f_offset = 0, f_length = 4096\<rparr>\<rparr>"
      and fl = "\<lparr>f_index = 0, f_name = ''a.mp4'', f_offset = 0, f_length = 4096\<rparr>"
      and a = 1023 and b = 0 and now = 0]
  by (simp add: decimal_999999999 decimal_104857600 decimal_small)

lemma serveRange_parsed_206:
  assumes st: "rangeStart rng = Some (int a)"
      and en: "rangeRequestedEnd rng (int (f_length fl)) = Some e"
      and ok: "res_status (fst (serveRange now req s fl rng)) = 206"
  shows "int a \<le> min e (int (f_length fl) - 1) \<and> a < f_length fl \<and>
         map_of (res_headers (fst (serveRange now req s fl rng))) ''Content-Range''
           = Some (HStr (''bytes '' @ decimal a @ ''-'' @ decimal (nat (min e (int (f_length fl) - 1)))
                         @ ''/'' @ decimal (f_length fl))) \<and>
         map_of (res_headers (fst (serveRange now req s fl rng))) ''Content-Length''
           = Some (HNum (Some (min e (int (f_length fl) - 1) - int a + 1))) \<and>
         res_body (fst (serveRange now req s fl rng))
           = (if req_method req = ''HEAD'' then NoBody
              else ReadStream (Some (Some (int a), Some (min e (int (f_length fl) - 1)))))"
proof -
  have nr: "\<not> rangeRejected (Some (int a)) (Some (min e (int (f_length fl) - 1))) (int (f_length fl))"
    using ok by (auto simp add: serveRange_def Let_def st en rangeEnd_def split: if_splits)
  then have b: "int a \<le> min e (int (f_length fl) - 1)" "a < f_length fl"
    by (auto simp add: rangeRejected_def)
  then have nn: "\<not> min e (int (f_length fl) - 1) < 0" by linarith
  show ?thesis
    using nr b nn
    by (simp add: serveRange_def Let_def st en rangeEnd_def numToString_def chunkSize_def
        map_of_baseHeaders_CR map_of_baseHeaders_CL map_add_def map_of_append [simplified])
qed

text \<open>
  Claim C2, as the code has it. For a GET or HEAD request with a Range header
  \<open>bytes=a-b\<close> or \<open>bytes=a-\<close> (decimal numbers) that is answered with 206 on a file of
  \<open>N\<close> bytes, let \<open>e\<close> be \<open>min b (N - 1)\<close>, or \<open>N - 1\<close> for the open range. Then
  \<open>a \<le> e < N\<close>, the headers are \<open>Content-Range: bytes a-e/N\<close> and
  \<open>Content-Length: e - a + 1\<close>, and the body of a GET is the engine read stream created
  for \<open>{start: a, end: e}\<close>; a HEAD request gets the headers and no body.
\<close>

theorem C2_partial_content:
  assumes m: "req_method req = ''GET'' \<or> req_method req = ''HEAD''"
      and f: "currentFile s = Some fl"
      and r: "req_range req = Some (''bytes='' @ decimal a @ ''-'' @ rest)"
      and e: "(rest = [] \<and> e = int (f_length fl) - 1) \<or> (rest = decimal b \<and> e = min (int b) (int (f_length fl) - 1))"
      and ok: "res_status (fst (handleRawRequest now req s)) = 206"
  shows "int a \<le> e \<and> e < int (f_length fl) \<and>
         map_of (res_headers (fst (handleRawRequest now req s))) ''Content-Range''
           = Some (HStr (''bytes '' @ decimal a @ ''-'' @ decimal (nat e) @ ''/'' @ decimal (f_length fl))) \<and>
         map_of (res_headers (fst (handleRawRequest now req s))) ''Content-Length''
           = Some (HNum (Some (e - int a + 1))) \<and>
         res_body (fst (handleRawRequest now req s))
           = (if req_method req = ''HEAD'' then NoBody else ReadStream (Some (Some (int a), Some e)))"
proof -
  let ?rng = "''bytes='' @ decimal a @ ''-'' @ rest"
  have opt: "req_method req \<noteq> ''OPTIONS''" using m by auto
  have h: "handleRawRequest now req s = serveRange now req s fl ?rng"
    by (rule handleRawRequest_range [OF opt f r]) simp
  have st: "rangeStart ?rng = Some (int a)"
    by (rule rangeStart_closed)
  obtain e0 where en: "rangeRequestedEnd ?rng (int (f_length fl)) = Some e0"
    and e0: "e = min e0 (int (f_length fl) - 1)"
    using e rangeRequestedEnd_open [of a "int (f_length fl)"]
      rangeRequestedEnd_closed [of a b "int (f_length fl)"] by auto
  show ?thesis
    using serveRange_parsed_206 [OF st en ok [unfolded h]] unfolding h e0 by simp
qed

text \<open>
  Claim C2 as stated fails for a HEAD request with a Range header: it is answered with 206
  and no body, so no read stream is created for it.
\<close>

theorem C2_counterexample:
  "res_status (fst (handleRawRequest 0 \<lparr>req_method = ''HEAD'', req_range = Some ''bytes=0-9''\<rparr>
      (initialState\<lparr>currentFile := Some \<lparr>f_index = 0, f_name = ''a.mp4'', f_offset = 0, f_length = 100\<rparr>\<rparr>))) = 206
   \<and> res_body (fst (handleRawRequest 0 \<lparr>req_method = ''HEAD'', req_range = Some ''bytes=0-9''\<rparr>
      (initialState\<lparr>currentFile := Some \<lparr>f_index = 0, f_name = ''a.mp4'', f_offset = 0, f_length = 100\<rparr>\<rparr>)))
       \<noteq> ReadStream (Some (Some 0, Some 9))"
  by (simp add: handleRawRequest_def serveRange_def initialState_def rangeStart_def
      rangeRequestedEnd_def rangeEnd_def rangeRejected_def parseInt_def isWhite_def isDigit_def
      digitVal_def Let_def)

text \<open>
  The theorem of C2 at \<open>Range: bytes=0-1023\<close> on a file of 4096 bytes.
\<close>

theorem C2_witness:
  "map_of (res_headers (fst (handleRawRequest 0 \<lparr>req_method = ''GET'', req_range = Some ''bytes=0-1023''\<rparr>
      (initialState\<lparr>currentFile := Some \<lparr>f_index = 0, f_name = ''a.mp4'', f_offset = 0, f_length = 4096\<rparr>\<rparr>))))
        ''Content-Range'' = Some (HStr ''bytes 0-1023/4096'')
   \<and> map_of (res_headers (fst (handleRawRequest 0 \<lparr>req_method = ''GET'', req_range = Some ''bytes=0-1023''\<rparr>
      (initialState\<lparr>currentFile := Some \<lparr>f_index = 0, f_name = ''a.mp4'', f_offset = 0, f_length = 4096\<rparr>\<rparr>))))
        ''Content-Length'' = Some (HNum (Some 1024))
   \<and> res_body (fst (handleRawRequest 0 \<lparr>req_method = ''GET'', req_range = Some ''bytes=0-1023''\<rparr>
      (initialState\<lparr>currentFile := Some \<lparr>f_index = 0, f_name = ''a.mp4'', f_offset = 0, f_length = 4096\<rparr>\<rparr>)))
        = ReadStream (Some (Some 0, Some 1023))"
proof -
  let ?req = "\<lparr>req_method = ''GET'', req_range = Some ''bytes=0-1023''\<rparr>"
  let ?fl = "\<lparr>f_index = 0, f_name = ''a.mp4'', f_offset = 0, f_length = 4096\<rparr>"
  let ?s = "initialState\<lparr>currentFile := Some ?fl\<rparr>"
  have ok: "res_status (fst (handleRawRequest 0 ?req ?s)) = 206"
    by (simp add: handleRawRequest_def serveRange_def initialState_def rangeStart_def
      rangeRequestedEnd_def rangeEnd_def rangeRejected_def parseInt_def isWhite_def isDigit_def
      digitVal_def Let_def)
  show ?thesis
    using C2_partial_content [where req = ?req and s = ?s and fl = ?fl and a = 0 and b = 1023
        and rest = "''1023''" and e = 1023 and now = 0] ok
    by (simp add: decimal_small)
qed

section \<open>Properties of the scheduler and the control surface\<close>

subsection \<open>The buffer configuration\<close>

lemma cfg_large:
  assumes "fs > 52848230400"
  shows "getBufferConfig fs =
     \<lparr>cfg_tier = T4K, cfg_bytesPerSecond = real fs / 7200, cfg_behindBytes = 10 * (real fs / 7200),
      cfg_aheadBytes = 73400320 - 10 * (real fs / 7200), cfg_behindSeconds = 10,
      cfg_aheadSeconds = Num ((73400320 - 10 * (real fs / 7200)) / (real fs / 7200)),
      cfg_criticalBufferSeconds = 5, cfg_estimatedDuration = 7200\<rparr>"
proof -
  have r: "real fs > 52848230400" using assms by linarith
  then have t: "detectQualityTier fs = T4K"
    by (simp add: detectQualityTier_def Let_def)
  have m: "min (45 * (real fs / 7200)) (73400320 - 10 * (real fs / 7200)) = 73400320 - 10 * (real fs / 7200)"
    using r by (simp add: min_def)
  show ?thesis
    using r m by (simp add: getBufferConfig_def Let_def t maxBufferBytes_def MAX_BUFFER_SIZE_MB_def
        BUFFER_BEHIND_SECONDS_def jsdiv_def)
qed

lemma aheadBytes_negative_iff:
  "cfg_aheadBytes (getBufferConfig fs) < 0 \<longleftrightarrow> fs > 52848230400"
proof (cases "fs > 52848230400")
  case True
  then have r: "real fs > 52848230400" by linarith
  show ?thesis using True r by (simp add: cfg_large)
next
  case False
  then have r: "real fs \<le> 52848230400" by linarith
  have "cfg_aheadBytes (getBufferConfig fs) \<ge> 0"
    using r by (auto simp add: getBufferConfig_def Let_def maxBufferBytes_def MAX_BUFFER_SIZE_MB_def
        BUFFER_BEHIND_SECONDS_def detectQualityTier_def min_def)
  then show ?thesis using False by simp
qed


lemma cfg_98304:
  "getBufferConfig 98304 =
     \<lparr>cfg_tier = T720p, cfg_bytesPerSecond = 98304 / 1200, cfg_behindBytes = 10 * (98304 / 1200),
      cfg_aheadBytes = 120 * (98304 / 1200), cfg_behindSeconds = 10, cfg_aheadSeconds = Num 120,
      cfg_criticalBufferSeconds = 15, cfg_estimatedDuration = 1200\<rparr>"
  by (simp add: getBufferConfig_def detectQualityTier_def Let_def maxBufferBytes_def
      MAX_BUFFER_SIZE_MB_def BUFFER_BEHIND_SECONDS_def jsdiv_def)

lemma cfg_1GiB: "cfg_bytesPerSecond (getBufferConfig 1073741824) = 1073741824 / 2400"
  by (simp add: getBufferConfig_def Let_def)

lemma ceiling_unit_fraction: "1 \<le> (x::real) \<Longrightarrow> \<lceil>1 / x\<rceil> = 1"
  by (simp add: ceiling_eq_iff)

subsection \<open>Eviction\<close>

text \<open>
  After an eviction loop a slot is empty when its index was visited, and unchanged
  otherwise; the arrays keep their lengths.
\<close>

lemma length_clearSlot [simp]: "length (clearSlot xs i) = length xs"
  by (simp add: clearSlot_def)

lemma slotAt_clearSlot: "slotAt (clearSlot xs i) j = (if j = i then None else slotAt xs j)"
  by (auto simp add: clearSlot_def slotAt_def nth_list_update nat_eq_iff)

lemma length_fst_evictAt [simp]: "length (fst (evictAt i st)) = length (fst st)"
  by (simp add: evictAt_def)

lemma length_snd_evictAt [simp]: "length (snd (evictAt i st)) = length (snd st)"
  by (simp add: evictAt_def)

lemma fold_evict_length:
  "length (fst (fold (\<lambda>i st'. if P i then evictAt i st' else st') is st)) = length (fst st)
   \<and> length (snd (fold (\<lambda>i st'. if P i then evictAt i st' else st') is st)) = length (snd st)"
  by (induction "is" arbitrary: st) auto

lemma fold_evict_fst:
  "slotAt (fst (fold (\<lambda>i st'. if P i then evictAt i st' else st') is st)) j
     = (if j \<in> set is \<and> P j then None else slotAt (fst st) j)"
  by (induction "is" arbitrary: st) (auto simp add: evictAt_def slotAt_clearSlot)

lemma fold_evict_snd:
  "slotAt (snd (fold (\<lambda>i st'. if P i then evictAt i st' else st') is st)) j
     = (if j \<in> set is \<and> P j then None else slotAt (snd st) j)"
  by (induction "is" arbitrary: st) (auto simp add: evictAt_def slotAt_clearSlot)

lemma fold_evictAt_eq: "fold evictAt is st = fold (\<lambda>i st'. if True then evictAt i st' else st') is st"
  by simp

lemma slotAt_outside: "j < 0 \<or> j \<ge> int (length xs) \<Longrightarrow> slotAt xs j = None"
  by (auto simp add: slotAt_def)

lemma evictOutsideWindow_length:
  "length (fst (evictOutsideWindow ws we st)) = length (fst st)
   \<and> length (snd (evictOutsideWindow ws we st)) = length (snd st)"
  using fold_evict_length [where P = "\<lambda>i. True"]
  by (simp add: evictOutsideWindow_def)

lemma evictOutsideWindow_fst:
  "slotAt (fst (evictOutsideWindow ws we st)) j
     = (if j < ws \<or> j > we then None else slotAt (fst st) j)"
proof (cases "length (fst st) > 0")
  case True
  have "slotAt (fst (evictOutsideWindow ws we st)) j
      = (if j \<in> set [we + 1 .. int (length (fst st)) - 1] then None
         else if j \<in> set [0 .. ws - 1] then None else slotAt (fst st) j)"
    using True fold_evict_fst [where P = "\<lambda>i. True"]
    by (simp add: evictOutsideWindow_def)
  then show ?thesis
    using slotAt_outside [of j "fst st"] by auto
next
  case False
  then show ?thesis
    by (simp add: evictOutsideWindow_def slotAt_def)
qed

lemma evictOutsideWindow_snd:
  "slotAt (snd (evictOutsideWindow ws we st)) j
     = (if length (fst st) > 0 \<and> (j < ws \<or> (j > we \<and> j < int (length (fst st))))
        then None else slotAt (snd st) j)"
proof (cases "length (fst st) > 0")
  case True
  have l: "length (fst (fold evictAt [0 .. ws - 1] st)) = length (fst st)"
    using fold_evict_length [where P = "\<lambda>i. True"] by simp
  have "slotAt (snd (evictOutsideWindow ws we st)) j
      = (if j \<in> set [we + 1 .. int (length (fst st)) - 1] then None
         else if j \<in> set [0 .. ws - 1] then None else slotAt (snd st) j)"
    using True fold_evict_snd [where P = "\<lambda>i. True"] l
    by (simp add: evictOutsideWindow_def)
  then show ?thesis
    using True slotAt_outside [of j "snd st"] by auto
next
  case False
  then show ?thesis
    by (simp add: evictOutsideWindow_def)
qed

lemma evictEmergency_fst:
  "slotAt (fst (evictEmergency ws we st)) j
     = (if j < ws \<or> j > we then None else slotAt (fst st) j)"
proof -
  have "slotAt (fst (evictEmergency ws we st)) j
      = (if j \<in> set [0 .. int (length (fst st)) - 1] \<and> (j < ws \<or> j > we) then None
         else slotAt (fst st) j)"
    unfolding evictEmergency_def by (rule fold_evict_fst)
  then show ?thesis
    using slotAt_outside [of j "fst st"] by auto
qed

lemma evictEmergency_snd:
  "slotAt (snd (evictEmergency ws we st)) j
     = (if 0 \<le> j \<and> j < int (length (fst st)) \<and> (j < ws \<or> j > we) then None
        else slotAt (snd st) j)"
proof -
  have "slotAt (snd (evictEmergency ws we st)) j
      = (if j \<in> set [0 .. int (length (fst st)) - 1] \<and> (j < ws \<or> j > we) then None
         else slotAt (snd st) j)"
    unfolding evictEmergency_def by (rule fold_evict_snd)
  then show ?thesis by auto
qed

lemma evictEmergency_length:
  "length (fst (evictEmergency ws we st)) = length (fst st)
   \<and> length (snd (evictEmergency ws we st)) = length (snd st)"
  unfolding evictEmergency_def by (rule fold_evict_length)

subsection \<open>The bytes that a tick counts\<close>

lemma foldl_add_sum_list:
  "foldl (\<lambda>acc c. acc + f c) a xs = a + sum_list (map f xs)" for a :: nat
  by (induction xs arbitrary: a) simp_all

lemma countBytes_sum:
  "countBytes pl xs = sum_list (map (\<lambda>c. case c of None \<Rightarrow> 0 | Some b \<Rightarrow> if b = 0 then pl else b) xs)"
proof -
  have "slotBytes pl = (\<lambda>c. case c of None \<Rightarrow> 0 | Some b \<Rightarrow> if b = 0 then pl else b)"
    by (auto simp add: slotBytes_def fun_eq_iff split: option.splits)
  then show ?thesis
    by (simp add: countBytes_def foldl_add_sum_list)
qed

subsection \<open>The target of the soft pause\<close>





subsection \<open>The steps of a tick\<close>

lemma hardLimitPhase_proj:
  "t_paused (fst (hardLimitPhase b rt ws we tc)) = t_paused (fst tc)"
  "t_hardPaused (fst (hardLimitPhase b rt ws we tc)) = (t_hardPaused (fst tc) \<or> hardLimitExceeded b rt)"
  "t_bitfield (fst (hardLimitPhase b rt ws we tc)) = t_bitfield (fst tc)"
  "t_pieceLength (fst (hardLimitPhase b rt ws we tc)) = t_pieceLength (fst tc)"
  "t_bufferConfig (fst (hardLimitPhase b rt ws we tc)) = t_bufferConfig (fst tc)"
  by (auto simp add: hardLimitPhase_def Let_def)

lemma hardLimitPhase_calls:
  "snd (hardLimitPhase b rt ws we tc) =
     snd tc @ (if hardLimitExceeded b rt
               then (if t_hardPaused (fst tc) then [] else [Pause]) @ (if hasGc rt then [Gc] else [])
               else [])"
  by (auto simp add: hardLimitPhase_def Let_def)

lemma hardLimitPhase_chunks:
  "slotAt (t_chunks (fst (hardLimitPhase b rt ws we tc))) j =
     (if hardLimitExceeded b rt \<and> (j < ws \<or> j > we) then None else slotAt (t_chunks (fst tc)) j)"
  by (auto simp add: hardLimitPhase_def Let_def evictEmergency_fst)

lemma hardLimitPhase_mem:
  "slotAt (t_mem (fst (hardLimitPhase b rt ws we tc))) j =
     (if hardLimitExceeded b rt \<and> 0 \<le> j \<and> j < int (length (t_chunks (fst tc))) \<and> (j < ws \<or> j > we)
      then None else slotAt (t_mem (fst tc)) j)"
  by (auto simp add: hardLimitPhase_def Let_def evictEmergency_snd)

lemma hardResumePhase_proj:
  "t_paused (fst (hardResumePhase tc)) = t_paused (fst tc)"
  "t_hardPaused (fst (hardResumePhase tc)) =
     (t_hardPaused (fst tc) \<and> \<not> real (actualMemoryBytes (fst tc)) < maxBufferBytes * 0.8)"
  "t_bitfield (fst (hardResumePhase tc)) = t_bitfield (fst tc)"
  "t_chunks (fst (hardResumePhase tc)) = t_chunks (fst tc)"
  "t_mem (fst (hardResumePhase tc)) = t_mem (fst tc)"
  "t_pieceLength (fst (hardResumePhase tc)) = t_pieceLength (fst tc)"
  "actualMemoryBytes (fst (hardResumePhase tc)) = actualMemoryBytes (fst tc)"
  by (auto simp add: hardResumePhase_def actualMemoryBytes_def)

lemma hardResumePhase_calls:
  "snd (hardResumePhase tc) =
     snd tc @ (if t_hardPaused (fst tc) \<and> real (actualMemoryBytes (fst tc)) < maxBufferBytes * 0.8
               then [Resume] else [])"
  by (auto simp add: hardResumePhase_def)

lemma softControlPhase_proj:
  "t_hardPaused (fst (softControlPhase tr ahead cfg tc)) = t_hardPaused (fst tc)"
  "t_bitfield (fst (softControlPhase tr ahead cfg tc)) = t_bitfield (fst tc)"
  "t_chunks (fst (softControlPhase tr ahead cfg tc)) = t_chunks (fst tc)"
  "t_mem (fst (softControlPhase tr ahead cfg tc)) = t_mem (fst tc)"
  "t_pieceLength (fst (softControlPhase tr ahead cfg tc)) = t_pieceLength (fst tc)"
  "actualMemoryBytes (fst (softControlPhase tr ahead cfg tc)) = actualMemoryBytes (fst tc)"
  by (auto simp add: softControlPhase_def Let_def actualMemoryBytes_def)

lemma softControlPhase_paused:
  "t_paused (fst (softControlPhase tr ahead cfg tc)) =
     (if isBufferFull ahead cfg \<and> \<not> t_paused (fst tc) \<and> \<not> tr \<and> \<not> t_hardPaused (fst tc) then True
      else if t_paused (fst tc) \<and> \<not> t_hardPaused (fst tc)
              \<and> (jslt ahead (jshalf (targetBufferSeconds cfg)) \<or> tr) then False
      else t_paused (fst tc))"
  by (auto simp add: softControlPhase_def Let_def)

lemma softControlPhase_calls:
  "snd (softControlPhase tr ahead cfg tc) =
     snd tc @
     (if isBufferFull ahead cfg \<and> \<not> t_paused (fst tc) \<and> \<not> tr \<and> \<not> t_hardPaused (fst tc) then [Pause]
      else if t_paused (fst tc) \<and> \<not> t_hardPaused (fst tc)
              \<and> (jslt ahead (jshalf (targetBufferSeconds cfg)) \<or> tr) then [Resume]
      else [])"
  by (auto simp add: softControlPhase_def Let_def)

lemma tickSession_eq:
  "tickSession rt s torrent file totalPieces =
     (let tc3 = tickHard rt s torrent file totalPieces;
          tc4 = softControlPhase (isTranscoding s) (tickAhead rt s torrent file totalPieces)
                  (bufferConfigOf torrent file) tc3
      in ((fst tc4)\<lparr>t_bufferInfo := Some
            \<lparr>bi_bufferedAheadSeconds = jsround (tickAhead rt s torrent file totalPieces),
             bi_bufferSizeMB = min (real (actualMemoryBytes (fst tc3)) / (1024 * 1024)) MAX_BUFFER_SIZE_MB,
             bi_windowStart = tickWindowStart s torrent file,
             bi_windowEnd = tickWindowEnd s torrent file,
             bi_currentPiece = tickCurrentPiece s torrent file,
             bi_bufferedStart = bufferedStart (fst tc3) (tickCurrentPiece s torrent file) (tickWindowStart s torrent file),
             bi_bufferedEnd = bufferedEnd (fst tc3) totalPieces (tickCurrentPiece s torrent file) (tickWindowEnd s torrent file),
             bi_qualityTier = cfg_tier (bufferConfigOf torrent file),
             bi_paused = t_paused (fst tc4), bi_hardPaused = t_hardPaused (fst tc4)\<rparr>\<rparr>,
          snd tc4))"
  by (simp add: tickSession_def tickHard_def tickAhead_def tickWindowStart_def tickWindowEnd_def
      tickCurrentPiece_def tickBps_def tickStoredBytes_def Let_def)

lemma tick_eq:
  assumes "currentTorrent s = Some torrent" "currentFile s = Some fl"
    "t_pieces torrent = Some n" "t_pieceLength torrent \<noteq> 0"
  shows "tick rt s = s\<lparr>currentTorrent := Some (fst (tickSession rt s torrent fl n)),
                       calls := calls s @ snd (tickSession rt s torrent fl n)\<rparr>"
  using assms by (simp add: tick_def Let_def)

lemma tick_torrent:
  assumes "currentTorrent s = Some torrent" "currentFile s = Some fl"
    "t_pieces torrent = Some n" "t_pieceLength torrent \<noteq> 0"
  shows "currentTorrent (tick rt s) = Some (fst (tickSession rt s torrent fl n))"
    and "calls (tick rt s) = calls s @ snd (tickSession rt s torrent fl n)"
  using tick_eq [OF assms] by simp_all

lemma tickSession_info:
  "t_bufferInfo (fst (tickSession rt s torrent fl n)) = Some
     \<lparr>bi_bufferedAheadSeconds = jsround (tickAhead rt s torrent fl n),
      bi_bufferSizeMB = min (real (actualMemoryBytes (fst (tickHard rt s torrent fl n))) / (1024 * 1024)) MAX_BUFFER_SIZE_MB,
      bi_windowStart = tickWindowStart s torrent fl,
      bi_windowEnd = tickWindowEnd s torrent fl,
      bi_currentPiece = tickCurrentPiece s torrent fl,
      bi_bufferedStart = bufferedStart (fst (tickHard rt s torrent fl n)) (tickCurrentPiece s torrent fl) (tickWindowStart s torrent fl),
      bi_bufferedEnd = bufferedEnd (fst (tickHard rt s torrent fl n)) n (tickCurrentPiece s torrent fl) (tickWindowEnd s torrent fl),
      bi_qualityTier = cfg_tier (bufferConfigOf torrent fl),
      bi_paused = t_paused (fst (tickSession rt s torrent fl n)),
      bi_hardPaused = t_hardPaused (fst (tickSession rt s torrent fl n))\<rparr>"
  by (simp add: tickSession_eq Let_def)

lemma tickHard_proj:
  "t_paused (fst (tickHard rt s torrent fl n)) = t_paused torrent"
  "t_bitfield (fst (tickHard rt s torrent fl n)) = t_bitfield torrent"
  "t_pieceLength (fst (tickHard rt s torrent fl n)) = t_pieceLength torrent"
  by (simp_all add: tickHard_def hardResumePhase_proj hardLimitPhase_proj)

lemma tickHard_chunks:
  "slotAt (t_chunks (fst (tickHard rt s torrent fl n))) j =
     (if j < tickWindowStart s torrent fl \<or> j > tickWindowEnd s torrent fl then None
      else slotAt (t_chunks torrent) j)"
  by (simp add: tickHard_def hardResumePhase_proj hardLimitPhase_chunks evictOutsideWindow_fst)

lemma tickHard_hardPaused:
  "t_hardPaused (fst (tickHard rt s torrent fl n)) =
     ((t_hardPaused torrent \<or> hardLimitExceeded (tickStoredBytes torrent) rt)
      \<and> \<not> real (actualMemoryBytes (fst (tickHard rt s torrent fl n))) < maxBufferBytes * 0.8)"
  by (auto simp add: tickHard_def hardResumePhase_proj hardLimitPhase_proj)

lemma tickHard_calls:
  "snd (tickHard rt s torrent fl n) =
     reselectCalls torrent fl
     @ criticalCalls torrent n (tickCurrentPiece s torrent fl) (tickWindowEnd s torrent fl) (tickBps s torrent fl)
     @ (if hardLimitExceeded (tickStoredBytes torrent) rt
        then (if t_hardPaused torrent then [] else [Pause]) @ (if hasGc rt then [Gc] else [])
        else [])
     @ (if (t_hardPaused torrent \<or> hardLimitExceeded (tickStoredBytes torrent) rt)
           \<and> real (actualMemoryBytes (fst (tickHard rt s torrent fl n))) < maxBufferBytes * 0.8
        then [Resume] else [])"
  by (simp add: tickHard_def hardResumePhase_calls hardResumePhase_proj hardLimitPhase_calls
      hardLimitPhase_proj)

lemma tickSession_proj:
  "t_hardPaused (fst (tickSession rt s torrent fl n)) = t_hardPaused (fst (tickHard rt s torrent fl n))"
  "t_chunks (fst (tickSession rt s torrent fl n)) = t_chunks (fst (tickHard rt s torrent fl n))"
  "t_mem (fst (tickSession rt s torrent fl n)) = t_mem (fst (tickHard rt s torrent fl n))"
  "t_bitfield (fst (tickSession rt s torrent fl n)) = t_bitfield torrent"
  "actualMemoryBytes (fst (tickSession rt s torrent fl n)) = actualMemoryBytes (fst (tickHard rt s torrent fl n))"
  by (simp_all add: tickSession_eq Let_def softControlPhase_proj tickHard_proj actualMemoryBytes_def)

lemma tickSession_paused:
  "t_paused (fst (tickSession rt s torrent fl n)) =
     (if isBufferFull (tickAhead rt s torrent fl n) (bufferConfigOf torrent fl) \<and> \<not> t_paused torrent
         \<and> \<not> isTranscoding s \<and> \<not> t_hardPaused (fst (tickSession rt s torrent fl n)) then True
      else if t_paused torrent \<and> \<not> t_hardPaused (fst (tickSession rt s torrent fl n))
              \<and> (jslt (tickAhead rt s torrent fl n) (jshalf (targetBufferSeconds (bufferConfigOf torrent fl)))
                  \<or> isTranscoding s) then False
      else t_paused torrent)"
  unfolding tickSession_proj(1)
  by (simp add: tickSession_eq Let_def softControlPhase_paused tickHard_proj)

lemma tickSession_calls:
  "snd (tickSession rt s torrent fl n) =
     snd (tickHard rt s torrent fl n) @
     (if isBufferFull (tickAhead rt s torrent fl n) (bufferConfigOf torrent fl) \<and> \<not> t_paused torrent
         \<and> \<not> isTranscoding s \<and> \<not> t_hardPaused (fst (tickSession rt s torrent fl n)) then [Pause]
      else if t_paused torrent \<and> \<not> t_hardPaused (fst (tickSession rt s torrent fl n))
              \<and> (jslt (tickAhead rt s torrent fl n) (jshalf (targetBufferSeconds (bufferConfigOf torrent fl)))
                  \<or> isTranscoding s) then [Resume]
      else [])"
  unfolding tickSession_proj(1)
  by (simp add: tickSession_eq Let_def softControlPhase_calls tickHard_proj)

lemma bufferedAheadSeconds_nonneg:
  assumes "bps > 0"
  shows "\<exists>x. x \<ge> 0 \<and> bufferedAheadSeconds pl bEnd cp bps = Num x"
  using assms by (simp add: bufferedAheadSeconds_def Let_def jsdiv_def)

lemma tickAhead_nonneg:
  assumes "tickBps s torrent fl > 0"
  shows "\<exists>x. x \<ge> 0 \<and> tickAhead rt s torrent fl n = Num x"
  unfolding tickAhead_def by (rule bufferedAheadSeconds_nonneg [OF assms])

lemma tickHard_mem:
  "slotAt (t_mem (fst (tickHard rt s torrent fl n))) j =
     (if t_chunks torrent \<noteq> []
         \<and> (j < tickWindowStart s torrent fl
            \<or> (tickWindowEnd s torrent fl < j \<and> j < int (length (t_chunks torrent))))
      then None else slotAt (t_mem torrent) j)"
  using evictOutsideWindow_length [of "tickWindowStart s torrent fl" "tickWindowEnd s torrent fl"
      "(t_chunks torrent, t_mem torrent)"]
  by (auto simp add: tickHard_def hardResumePhase_proj hardLimitPhase_mem evictOutsideWindow_snd)

lemma reselect_critical_no_pause:
  "Pause \<notin> set (reselectCalls torrent fl @ criticalCalls torrent n cp we bps)"
  "Resume \<notin> set (reselectCalls torrent fl @ criticalCalls torrent n cp we bps)"
  by (auto simp add: reselectCalls_def criticalCalls_def)

lemma updatePlayback_seek:
  assumes "currentTorrent s = Some torrent" "currentFile s = Some fl"
    and "\<bar>time - currentPlaybackTime s\<bar> > 5"
  shows "currentTorrent (updatePlayback time s) = Some (torrent\<lparr>t_hardPaused := False, t_paused := False\<rparr>)"
    and "calls (updatePlayback time s) =
           calls s @ (if t_hardPaused torrent then [Resume] else [])
           @ (if t_paused torrent then [Resume] else []) @ seekCalls torrent fl time"
  using assms by (simp_all add: updatePlayback_def Let_def)


subsection \<open>The example session\<close>

lemma ex_guards:
  "currentTorrent exState = Some exTorrent" "currentFile exState = Some exFile"
  "t_pieces exTorrent = Some 6" "t_pieceLength exTorrent \<noteq> 0"
  by (simp_all add: exState_def exTorrent_def initialState_def)

lemma ex_fields:
  "t_pieceLength exTorrent = 16384" "t_hardPaused exTorrent = False" "t_paused exTorrent = False"
  "bufferConfigOf exTorrent exFile = getBufferConfig 98304"
  "f_offset exFile = 0" "f_length exFile = 98304"
  "estimatedBitrate exState = 0" "currentPlaybackBytes exState = Some 65536"
  "isTranscoding exState = False" "calls exState = []"
  "t_bitfield exTorrent = Some [True, True, True, True, True, True]"
  by (simp_all add: exState_def exTorrent_def exFile_def initialState_def bufferConfigOf_def)

lemma ex_window:
  assumes "t_pieceLength t = 16384" "bufferConfigOf t exFile = getBufferConfig 98304"
    "estimatedBitrate s = 0" "currentPlaybackBytes s = Some 65536"
  shows "tickBps s t exFile = 98304 / 1200"
    and "tickCurrentPiece s t exFile = 4"
    and "tickWindowStart s t exFile = 3"
    and "tickWindowEnd s t exFile = 5"
proof -
  show b: "tickBps s t exFile = 98304 / 1200"
    by (simp add: tickBps_def bytesPerSecond_def assms cfg_98304)
  show c: "tickCurrentPiece s t exFile = 4"
    by (simp add: tickCurrentPiece_def b currentPiece_def currentByte_def assms ex_fields Let_def)
  show "tickWindowStart s t exFile = 3"
    by (simp add: tickWindowStart_def b c windowStart_def filePieceStart_def
      piecesBehind_def behindBytes_def maxBufferBytes_def MAX_BUFFER_SIZE_MB_def
      BUFFER_BEHIND_SECONDS_def assms ex_fields ceiling_unit_fraction)
  show "tickWindowEnd s t exFile = 5"
    by (simp add: tickWindowEnd_def c windowEnd_def filePieceEnd_def
      piecesAhead_def aheadBytes_def maxBufferBytes_def MAX_BUFFER_SIZE_MB_def
      assms ex_fields cfg_98304 ceiling_unit_fraction)
qed

lemmas ex_win = ex_window [OF ex_fields(1) ex_fields(4) ex_fields(7) ex_fields(8)]


lemma upto_0_2: "[0..2::int] = [0, 1, 2]"
  by (simp add: upto_rec1)

lemma upto_0_5: "[0..5::int] = [0, 1, 2, 3, 4, 5]"
  by (simp add: upto_rec1)

lemma ex_evict:
  assumes "t_chunks t = t_chunks exTorrent" "t_mem t = t_mem exTorrent"
  shows "evictOutsideWindow 3 5 (t_chunks t, t_mem t)
     = ([None, None, None, Some 16384, Some 16384, Some 16384], [None, None, None, None, None, None])"
  by (simp add: assms evictOutsideWindow_def exTorrent_def upto_0_2 evictAt_def clearSlot_def slotAt_def)

lemma ex_emergency:
  "evictEmergency 3 5 ([None, None, None, Some 16384, Some 16384, Some 16384], [None, None, None, None, None, None])
     = ([None, None, None, Some 16384, Some 16384, Some 16384], [None, None, None, None, None, None])"
  by (simp add: evictEmergency_def upto_0_5 evictAt_def clearSlot_def slotAt_def)

lemma ex_tickHard_chunks:
  assumes "t_pieceLength t = 16384" "bufferConfigOf t exFile = getBufferConfig 98304"
    "estimatedBitrate s = 0" "currentPlaybackBytes s = Some 65536"
    "t_chunks t = t_chunks exTorrent" "t_mem t = t_mem exTorrent"
  shows "t_chunks (fst (tickHard rt s t exFile n)) = [None, None, None, Some 16384, Some 16384, Some 16384]"
    and "actualMemoryBytes (fst (tickHard rt s t exFile n)) = 49152"
proof -
  note w = ex_window [OF assms(1-4)]
  show c: "t_chunks (fst (tickHard rt s t exFile n)) = [None, None, None, Some 16384, Some 16384, Some 16384]"
    by (simp add: tickHard_def w ex_evict [OF assms(5,6)] hardResumePhase_proj hardLimitPhase_def
        Let_def ex_emergency)
  show "actualMemoryBytes (fst (tickHard rt s t exFile n)) = 49152"
    by (simp add: actualMemoryBytes_def c tickHard_proj assms(1) countBytes_def slotBytes_def)
qed

lemmas ex_hard = ex_tickHard_chunks [OF ex_fields(1) ex_fields(4) ex_fields(7) ex_fields(8) refl refl]

lemma exPaused_fields:
  "currentTorrent exPausedState = Some exPausedTorrent"
  "currentFile exPausedState = Some exFile"
  "t_pieces exPausedTorrent = Some 6"
  "t_pieceLength exPausedTorrent \<noteq> 0"
  "t_pieceLength exPausedTorrent = 16384"
  "bufferConfigOf exPausedTorrent exFile = getBufferConfig 98304"
  "estimatedBitrate exPausedState = 0"
  "currentPlaybackBytes exPausedState = Some 65536"
  "t_chunks exPausedTorrent = t_chunks exTorrent"
  "t_mem exPausedTorrent = t_mem exTorrent"
  "t_hardPaused exPausedTorrent = True"
  by (simp_all add: exPausedState_def exPausedTorrent_def exState_def exTorrent_def initialState_def
      bufferConfigOf_def)

lemmas exPaused_guards = exPaused_fields(1-4)

lemmas exPaused_hard = ex_tickHard_chunks [OF exPaused_fields(5-10)]

lemma ex_bufferedEnd:
  assumes "t_bitfield t = Some [True, True, True, True, True, True]"
  shows "bufferedEnd t 6 4 5 = 5"
  by (simp add: bufferedEnd_def assms scanForward.simps bitGet_def)

lemma ex_ahead: "tickAhead rt exState exTorrent exFile 6 = Num 200"
  by (simp add: tickAhead_def ex_win ex_bufferedEnd tickHard_proj ex_fields
      bufferedAheadSeconds_def jsdiv_def Let_def)

lemma ex_target: "targetBufferSeconds (getBufferConfig 98304) = Num 120"
  by (simp add: targetBufferSeconds_def cfg_98304)

subsection \<open>The window\<close>





subsection \<open>Eviction and the bitfield\<close>

text \<open>
  After a tick no chunk outside the published window is stored, whatever the memory use;
  the bitfield is the one before the tick.
\<close>

lemma tick_evicts_chunks:
  assumes "currentTorrent s = Some torrent" "currentFile s = Some fl"
    "t_pieces torrent = Some n" "t_pieceLength torrent \<noteq> 0"
  shows "\<exists>t' info. currentTorrent (tick rt s) = Some t' \<and> t_bufferInfo t' = Some info \<and>
           (\<forall>j. j < bi_windowStart info \<or> j > bi_windowEnd info \<longrightarrow> slotAt (t_chunks t') j = None) \<and>
           t_bitfield t' = t_bitfield torrent"
  using tick_torrent(1) [OF assms, of rt] tickSession_info [of rt s torrent fl n]
  by (simp add: tickSession_proj tickHard_chunks)

text \<open>
  Claim C4 fails on the have-bit. In the example session the window of the tick is
  \<open>[3, 5]\<close>; piece 0 is stored before the tick and dropped by it, and its have-bit is
  still set afterwards: an eviction loop writes \<open>chunks\<close> and \<open>immediateMem\<close> only.
\<close>

theorem C4_have_bit_kept:
  "\<exists>t' info bits. currentTorrent (tick \<lparr>heapUsed = 0, hasGc = False\<rparr> exState) = Some t' \<and>
      t_bufferInfo t' = Some info \<and> bi_windowStart info = 3 \<and> bi_windowEnd info = 5 \<and>
      slotAt (t_chunks exTorrent) 0 = Some 16384 \<and>
      slotAt (t_chunks t') 0 = None \<and>
      t_bitfield t' = Some bits \<and> bitGet bits 0"
  using tick_torrent(1) [OF ex_guards, of "\<lparr>heapUsed = 0, hasGc = False\<rparr>"]
    tickSession_info [of "\<lparr>heapUsed = 0, hasGc = False\<rparr>" exState exTorrent exFile 6]
  by (simp add: tickSession_proj tickHard_chunks ex_win)
     (simp add: exTorrent_def bitGet_def slotAt_def)

subsection \<open>Hard pause\<close>

text \<open>
  Claim C5, as the code has it. On a tick that passes its guards, let the measured bytes
  be those counted in \<open>chunks\<close> and \<open>immediateMem\<close> at the start of the tick (a buffer
  of length 0 counts as a piece length), and let the limit be exceeded when they are more
  than 75 MiB or the heap is more than 500 MiB. After the tick no chunk outside the
  published window is stored and the chunks inside it are untouched; a buffer of
  \<open>immediateMem\<close> is dropped below the window and, after it, only up to the length of
  \<open>chunks\<close>. The bytes are recounted over \<open>chunks\<close> alone. The hard-pause flag is set
  after the tick exactly when it was set before or the limit is exceeded, and the recount
  is not below 80% of 70 MiB. The calls of the tick are, after the selection and critical
  calls: \<open>pause\<close> when the limit is exceeded and the flag was not set; the collector
  hint when the limit is exceeded and the runtime has one; \<open>resume\<close> when the flag was
  set or the limit is exceeded, and the recount is below 80% of 70 MiB, which can be in
  the tick that paused; then the call of the soft pause control, none under a hard pause.
  Outside the tick, a playback update more than 5 s away from the stored time clears the
  flag at any memory level, without touching the store, and calls \<open>resume\<close> when the
  flag was set.
\<close>

theorem C5_hard_limit:
  assumes "currentTorrent s = Some torrent" "currentFile s = Some fl"
    "t_pieces torrent = Some n" "t_pieceLength torrent \<noteq> 0"
    and stored: "stored =
        sum_list (map (\<lambda>c. case c of None \<Rightarrow> 0 | Some b \<Rightarrow> if b = 0 then t_pieceLength torrent else b)
                   (t_chunks torrent))
        + sum_list (map (\<lambda>c. case c of None \<Rightarrow> 0 | Some b \<Rightarrow> if b = 0 then t_pieceLength torrent else b)
                     (t_mem torrent))"
    and exceeded: "exceeded =
        (real stored > 75 * 1024 * 1024 \<or> real (heapUsed rt) / (1024 * 1024) > 500)"
  shows "\<exists>t' info recount pre post.
     currentTorrent (tick rt s) = Some t' \<and> t_bufferInfo t' = Some info \<and>
     recount = sum_list (map (\<lambda>c. case c of None \<Rightarrow> 0 | Some b \<Rightarrow> if b = 0 then t_pieceLength torrent else b)
                          (t_chunks t')) \<and>
     (\<forall>j. j < bi_windowStart info \<or> j > bi_windowEnd info \<longrightarrow> slotAt (t_chunks t') j = None) \<and>
     (\<forall>j. bi_windowStart info \<le> j \<and> j \<le> bi_windowEnd info \<longrightarrow>
           slotAt (t_chunks t') j = slotAt (t_chunks torrent) j) \<and>
     (\<forall>j. slotAt (t_mem t') j =
           (if t_chunks torrent \<noteq> []
               \<and> (j < bi_windowStart info
                  \<or> (bi_windowEnd info < j \<and> j < int (length (t_chunks torrent))))
            then None else slotAt (t_mem torrent) j)) \<and>
     (t_hardPaused t' \<longleftrightarrow>
        (t_hardPaused torrent \<or> exceeded) \<and> \<not> real recount < 80 / 100 * (70 * 1024 * 1024)) \<and>
     calls (tick rt s) =
       calls s @ pre
       @ (if exceeded \<and> \<not> t_hardPaused torrent then [Pause] else [])
       @ (if exceeded \<and> hasGc rt then [Gc] else [])
       @ (if (t_hardPaused torrent \<or> exceeded) \<and> real recount < 80 / 100 * (70 * 1024 * 1024)
          then [Resume] else [])
       @ post \<and>
     Pause \<notin> set pre \<and> Resume \<notin> set pre \<and> (t_hardPaused t' \<longrightarrow> post = []) \<and>
     (\<forall>time. \<bar>time - currentPlaybackTime s\<bar> > 5 \<longrightarrow>
        (\<exists>t''. currentTorrent (updatePlayback time s) = Some t'' \<and> \<not> t_hardPaused t'' \<and>
               t_chunks t'' = t_chunks torrent \<and> t_mem t'' = t_mem torrent \<and>
               (t_hardPaused torrent \<longrightarrow>
                  (\<exists>rest. calls (updatePlayback time s) = calls s @ Resume # rest))))"
proof -
  let ?t' = "fst (tickSession rt s torrent fl n)"
  let ?h = "fst (tickHard rt s torrent fl n)"
  let ?f = "\<lambda>c. case c of None \<Rightarrow> 0 | Some b \<Rightarrow> if b = 0 then t_pieceLength torrent else b"
  let ?recount = "sum_list (map ?f (t_chunks ?t'))"
  let ?pre = "reselectCalls torrent fl
     @ criticalCalls torrent n (tickCurrentPiece s torrent fl) (tickWindowEnd s torrent fl) (tickBps s torrent fl)"
  let ?post = "(if isBufferFull (tickAhead rt s torrent fl n) (bufferConfigOf torrent fl) \<and> \<not> t_paused torrent
         \<and> \<not> isTranscoding s \<and> \<not> t_hardPaused ?t' then [Pause]
      else if t_paused torrent \<and> \<not> t_hardPaused ?t'
              \<and> (jslt (tickAhead rt s torrent fl n) (jshalf (targetBufferSeconds (bufferConfigOf torrent fl)))
                  \<or> isTranscoding s) then [Resume]
      else [])"
  have st: "tickStoredBytes torrent = stored"
    by (simp add: tickStoredBytes_def countBytes_sum stored)
  have ex: "hardLimitExceeded (tickStoredBytes torrent) rt = exceeded"
    by (simp add: hardLimitExceeded_def HARD_LIMIT_BUFFER_MB_def st exceeded)
  have am: "actualMemoryBytes ?h = ?recount"
    by (simp add: actualMemoryBytes_def countBytes_sum tickHard_proj tickSession_proj)
  have mb: "maxBufferBytes * 0.8 = 80 / 100 * (70 * 1024 * 1024)"
    by (simp add: maxBufferBytes_def MAX_BUFFER_SIZE_MB_def)
  have hp: "t_hardPaused ?t' =
     ((t_hardPaused torrent \<or> exceeded) \<and> \<not> real ?recount < 80 / 100 * (70 * 1024 * 1024))"
    using tickHard_hardPaused [of rt s torrent fl n] unfolding ex am mb
    by (simp add: tickSession_proj)
  have ch: "\<forall>j. j < tickWindowStart s torrent fl \<or> j > tickWindowEnd s torrent fl \<longrightarrow>
      slotAt (t_chunks ?t') j = None"
    by (simp add: tickSession_proj tickHard_chunks)
  have ch2: "\<forall>j. tickWindowStart s torrent fl \<le> j \<and> j \<le> tickWindowEnd s torrent fl \<longrightarrow>
      slotAt (t_chunks ?t') j = slotAt (t_chunks torrent) j"
    by (simp add: tickSession_proj tickHard_chunks)
  have me: "\<forall>j. slotAt (t_mem ?t') j =
           (if t_chunks torrent \<noteq> []
               \<and> (j < tickWindowStart s torrent fl
                  \<or> (tickWindowEnd s torrent fl < j \<and> j < int (length (t_chunks torrent))))
            then None else slotAt (t_mem torrent) j)"
    by (simp only: tickSession_proj tickHard_mem) simp
  have hc: "snd (tickHard rt s torrent fl n) = ?pre
       @ (if exceeded \<and> \<not> t_hardPaused torrent then [Pause] else [])
       @ (if exceeded \<and> hasGc rt then [Gc] else [])
       @ (if (t_hardPaused torrent \<or> exceeded) \<and> real ?recount < 80 / 100 * (70 * 1024 * 1024)
          then [Resume] else [])"
    using tickHard_calls [of rt s torrent fl n] unfolding ex am mb by auto
  have cl: "calls (tick rt s) = calls s @ ?pre
       @ (if exceeded \<and> \<not> t_hardPaused torrent then [Pause] else [])
       @ (if exceeded \<and> hasGc rt then [Gc] else [])
       @ (if (t_hardPaused torrent \<or> exceeded) \<and> real ?recount < 80 / 100 * (70 * 1024 * 1024)
          then [Resume] else [])
       @ ?post"
    using tick_torrent(2) [OF assms(1-4), of rt] tickSession_calls [of rt s torrent fl n]
    by (simp only: hc append_assoc)
  have po: "t_hardPaused ?t' \<longrightarrow> ?post = []"
    by simp
  have sk: "\<forall>time. \<bar>time - currentPlaybackTime s\<bar> > 5 \<longrightarrow>
        (\<exists>t''. currentTorrent (updatePlayback time s) = Some t'' \<and> \<not> t_hardPaused t'' \<and>
               t_chunks t'' = t_chunks torrent \<and> t_mem t'' = t_mem torrent \<and>
               (t_hardPaused torrent \<longrightarrow>
                  (\<exists>rest. calls (updatePlayback time s) = calls s @ Resume # rest)))"
    using updatePlayback_seek [OF assms(1,2)] by simp
  have c: "currentTorrent (tick rt s) = Some ?t'"
    by (rule tick_torrent(1) [OF assms(1-4)])
  have i: "t_bufferInfo ?t' = Some
     \<lparr>bi_bufferedAheadSeconds = jsround (tickAhead rt s torrent fl n),
      bi_bufferSizeMB = min (real (actualMemoryBytes (fst (tickHard rt s torrent fl n))) / (1024 * 1024)) MAX_BUFFER_SIZE_MB,
      bi_windowStart = tickWindowStart s torrent fl,
      bi_windowEnd = tickWindowEnd s torrent fl,
      bi_currentPiece = tickCurrentPiece s torrent fl,
      bi_bufferedStart = bufferedStart (fst (tickHard rt s torrent fl n)) (tickCurrentPiece s torrent fl) (tickWindowStart s torrent fl),
      bi_bufferedEnd = bufferedEnd (fst (tickHard rt s torrent fl n)) n (tickCurrentPiece s torrent fl) (tickWindowEnd s torrent fl),
      bi_qualityTier = cfg_tier (bufferConfigOf torrent fl),
      bi_paused = t_paused ?t',
      bi_hardPaused = t_hardPaused ?t'\<rparr>" (is "_ = Some ?info")
    by (rule tickSession_info)
  show ?thesis
    apply (rule exI [of _ ?t'])
    apply (rule exI [of _ ?info])
    apply (rule exI [of _ ?recount])
    apply (rule exI [of _ ?pre])
    apply (rule exI [of _ ?post])
    using c i ch ch2 me hp cl po sk reselect_critical_no_pause [of torrent fl n]
    by (simp only: bufferInfo.simps simp_thms)
qed


lemma cfg_hard:
  "getBufferConfig 3774873600 =
     \<lparr>cfg_tier = T720p, cfg_bytesPerSecond = 1048576, cfg_behindBytes = 10485760,
      cfg_aheadBytes = 62914560, cfg_behindSeconds = 10, cfg_aheadSeconds = Num 60,
      cfg_criticalBufferSeconds = 15, cfg_estimatedDuration = 3600\<rparr>"
  by (simp add: getBufferConfig_def detectQualityTier_def Let_def maxBufferBytes_def
      MAX_BUFFER_SIZE_MB_def BUFFER_BEHIND_SECONDS_def jsdiv_def)

lemma hard_fields:
  "currentTorrent hardState = Some hardTorrent" "currentFile hardState = Some hardFile"
  "t_pieces hardTorrent = Some 225" "t_pieceLength hardTorrent \<noteq> 0"
  "t_pieceLength hardTorrent = 16777216"
  "bufferConfigOf hardTorrent hardFile = getBufferConfig 3774873600"
  "estimatedBitrate hardState = 0" "currentPlaybackBytes hardState = Some 33554432"
  "t_hardPaused hardTorrent = False" "t_paused hardTorrent = False" "calls hardState = []"
  "currentPlaybackTime hardState = 0" "t_files hardTorrent = [hardFile]" "t_hasCritical hardTorrent"
  "t_mem hardTorrent = []" "f_index hardFile = 0" "f_offset hardFile = 0"
  by (simp_all add: hardState_def hardTorrent_def hardFile_def initialState_def bufferConfigOf_def)

lemma hardPaused_fields:
  "currentTorrent hardPausedState = Some hardPausedTorrent" "currentFile hardPausedState = Some hardFile"
  "t_pieces hardPausedTorrent = Some 225" "t_pieceLength hardPausedTorrent \<noteq> 0"
  "t_pieceLength hardPausedTorrent = 16777216"
  "bufferConfigOf hardPausedTorrent hardFile = getBufferConfig 3774873600"
  "estimatedBitrate hardPausedState = 0" "currentPlaybackBytes hardPausedState = Some 33554432"
  "t_chunks hardPausedTorrent = t_chunks hardTorrent" "t_mem hardPausedTorrent = t_mem hardTorrent"
  "t_hardPaused hardPausedTorrent = True" "t_paused hardPausedTorrent = False" "calls hardPausedState = []"
  "currentPlaybackTime hardPausedState = 0" "t_files hardPausedTorrent = [hardFile]"
  "t_hasCritical hardPausedTorrent"
  by (simp_all add: hardPausedState_def hardPausedTorrent_def hardState_def hardTorrent_def hardFile_def
      initialState_def bufferConfigOf_def)

lemma hardFile_fields: "f_offset hardFile = 0" "f_length hardFile = 3774873600" "f_index hardFile = 0"
  by (simp_all add: hardFile_def)

lemma hard_window:
  assumes "t_pieceLength t = 16777216" "bufferConfigOf t hardFile = getBufferConfig 3774873600"
    "estimatedBitrate s = 0" "currentPlaybackBytes s = Some 33554432"
  shows "tickBps s t hardFile = 1048576"
    and "tickCurrentPiece s t hardFile = 2"
    and "tickWindowStart s t hardFile = 1"
    and "tickWindowEnd s t hardFile = 6"
proof -
  show b: "tickBps s t hardFile = 1048576"
    by (simp add: tickBps_def bytesPerSecond_def assms cfg_hard)
  show c: "tickCurrentPiece s t hardFile = 2"
    by (simp add: tickCurrentPiece_def b currentPiece_def currentByte_def assms hardFile_fields Let_def)
  show "tickWindowStart s t hardFile = 1"
    by (simp add: tickWindowStart_def b c windowStart_def filePieceStart_def
      piecesBehind_def behindBytes_def maxBufferBytes_def MAX_BUFFER_SIZE_MB_def
      BUFFER_BEHIND_SECONDS_def assms hardFile_fields)
  show "tickWindowEnd s t hardFile = 6"
    by (simp add: tickWindowEnd_def c windowEnd_def filePieceEnd_def
      piecesAhead_def aheadBytes_def maxBufferBytes_def MAX_BUFFER_SIZE_MB_def
      assms hardFile_fields cfg_hard)
qed

lemma hard_stored: "tickStoredBytes hardTorrent = 117440512"
  by (simp add: tickStoredBytes_def countBytes_def slotBytes_def hardTorrent_def)

lemma hard_storeBytes: "storeBytes hardTorrent = 117440512" "storeBytes hardPausedTorrent = 117440512"
  by (simp_all add: storeBytes_def hardTorrent_def hardPausedTorrent_def)

lemma upto_0_0: "[0..0::int] = [0]"
  by (simp add: upto_rec1)

lemma upto_0_6: "[0..6::int] = [0, 1, 2, 3, 4, 5, 6]"
  by (simp add: upto_rec1)

lemma hard_tickHard_chunks:
  assumes "t_pieceLength t = 16777216" "bufferConfigOf t hardFile = getBufferConfig 3774873600"
    "estimatedBitrate s = 0" "currentPlaybackBytes s = Some 33554432"
    "t_chunks t = t_chunks hardTorrent" "t_mem t = t_mem hardTorrent"
  shows "t_chunks (fst (tickHard rt s t hardFile n))
           = [None, Some 16777216, Some 16777216, Some 16777216, Some 16777216, Some 16777216, Some 16777216]"
proof -
  note w = hard_window [OF assms(1-4)]
  have e: "evictOutsideWindow 1 6 (t_chunks t, t_mem t)
     = ([None, Some 16777216, Some 16777216, Some 16777216, Some 16777216, Some 16777216, Some 16777216], [])"
    by (simp add: assms evictOutsideWindow_def hardTorrent_def upto_0_0 evictAt_def clearSlot_def slotAt_def)
  have m: "evictEmergency 1 6
       ([None, Some 16777216, Some 16777216, Some 16777216, Some 16777216, Some 16777216, Some 16777216], [])
     = ([None, Some 16777216, Some 16777216, Some 16777216, Some 16777216, Some 16777216, Some 16777216], [])"
    by (simp add: evictEmergency_def upto_0_6 evictAt_def clearSlot_def slotAt_def)
  show ?thesis
    by (simp add: tickHard_def w e hardResumePhase_proj hardLimitPhase_def Let_def m)
qed

lemma hard_sums:
  "117440512 =
     sum_list (map (\<lambda>c. case c of None \<Rightarrow> 0 | Some b \<Rightarrow> if b = 0 then t_pieceLength hardTorrent else b)
                (t_chunks hardTorrent))
     + sum_list (map (\<lambda>c. case c of None \<Rightarrow> 0 | Some b \<Rightarrow> if b = 0 then t_pieceLength hardTorrent else b)
                  (t_mem hardTorrent))"
  "117440512 =
     sum_list (map (\<lambda>c. case c of None \<Rightarrow> 0 | Some b \<Rightarrow> if b = 0 then t_pieceLength hardPausedTorrent else b)
                (t_chunks hardPausedTorrent))
     + sum_list (map (\<lambda>c. case c of None \<Rightarrow> 0 | Some b \<Rightarrow> if b = 0 then t_pieceLength hardPausedTorrent else b)
                  (t_mem hardPausedTorrent))"
  "98304 =
     sum_list (map (\<lambda>c. case c of None \<Rightarrow> 0 | Some b \<Rightarrow> if b = 0 then t_pieceLength exTorrent else b)
                (t_chunks exTorrent))
     + sum_list (map (\<lambda>c. case c of None \<Rightarrow> 0 | Some b \<Rightarrow> if b = 0 then t_pieceLength exTorrent else b)
                  (t_mem exTorrent))"
  "98304 =
     sum_list (map (\<lambda>c. case c of None \<Rightarrow> 0 | Some b \<Rightarrow> if b = 0 then t_pieceLength exPausedTorrent else b)
                (t_chunks exPausedTorrent))
     + sum_list (map (\<lambda>c. case c of None \<Rightarrow> 0 | Some b \<Rightarrow> if b = 0 then t_pieceLength exPausedTorrent else b)
                  (t_mem exPausedTorrent))"
  by (simp_all add: hardTorrent_def hardPausedTorrent_def exTorrent_def exPausedTorrent_def)

lemma hard_exceeded:
  "True = (real (117440512::nat) > 75 * 1024 * 1024 \<or> real (heapUsed \<lparr>heapUsed = 0, hasGc = False\<rparr>) / (1024 * 1024) > 500)"
  "False = (real (98304::nat) > 75 * 1024 * 1024 \<or> real (heapUsed \<lparr>heapUsed = 0, hasGc = False\<rparr>) / (1024 * 1024) > 500)"
  "True = (real (98304::nat) > 75 * 1024 * 1024 \<or> real (heapUsed \<lparr>heapUsed = 629145600, hasGc = True\<rparr>) / (1024 * 1024) > 500)"
  by simp_all

text \<open>
  The theorem of C5 at five inputs. A tick of the session with 112 MiB stored: the limit
  is exceeded, \<open>pause\<close> is called, piece 0 is dropped and piece 1 kept, and the flag
  stays set, since 96 MiB remain. A tick of the same session hard-paused: the flag stays
  set and neither \<open>pause\<close> nor \<open>resume\<close> is called. A tick of the hard-paused example
  session, where the recount gives 49152 bytes: the flag is cleared and \<open>resume\<close>
  called. A tick of the example session with a heap of 600 MiB and a collector hint:
  \<open>pause\<close>, the hint and \<open>resume\<close> follow each other and the flag is clear at the end.
  A seek in the hard-paused session with 112 MiB stored: the flag is cleared and
  \<open>resume\<close> called.
\<close>

theorem C5_witness:
  "(\<exists>t'. currentTorrent (tick \<lparr>heapUsed = 0, hasGc = False\<rparr> hardState) = Some t' \<and>
       t_hardPaused t' \<and> slotAt (t_chunks t') 0 = None \<and> slotAt (t_chunks t') 1 = Some 16777216 \<and>
       Pause \<in> set (calls (tick \<lparr>heapUsed = 0, hasGc = False\<rparr> hardState)) \<and>
       Resume \<notin> set (calls (tick \<lparr>heapUsed = 0, hasGc = False\<rparr> hardState)))
   \<and> (\<exists>t'. currentTorrent (tick \<lparr>heapUsed = 0, hasGc = False\<rparr> hardPausedState) = Some t' \<and>
       t_hardPaused t' \<and>
       Pause \<notin> set (calls (tick \<lparr>heapUsed = 0, hasGc = False\<rparr> hardPausedState)) \<and>
       Resume \<notin> set (calls (tick \<lparr>heapUsed = 0, hasGc = False\<rparr> hardPausedState)))
   \<and> (\<exists>t'. currentTorrent (tick \<lparr>heapUsed = 0, hasGc = False\<rparr> exPausedState) = Some t' \<and>
       \<not> t_hardPaused t' \<and>
       Resume \<in> set (calls (tick \<lparr>heapUsed = 0, hasGc = False\<rparr> exPausedState)))
   \<and> (\<exists>t'. currentTorrent (tick \<lparr>heapUsed = 629145600, hasGc = True\<rparr> exState) = Some t' \<and>
       \<not> t_hardPaused t' \<and>
       (\<exists>pre post. calls (tick \<lparr>heapUsed = 629145600, hasGc = True\<rparr> exState) = pre @ [Pause, Gc, Resume] @ post))
   \<and> (\<exists>t''. currentTorrent (updatePlayback 100 hardPausedState) = Some t'' \<and> \<not> t_hardPaused t'' \<and>
       (\<exists>rest. calls (updatePlayback 100 hardPausedState) = Resume # rest))"
proof -
  let ?lo = "\<lparr>heapUsed = 0, hasGc = False\<rparr>"
  let ?hi = "\<lparr>heapUsed = 629145600, hasGc = True\<rparr>"
  let ?t1 = "fst (tickSession ?lo hardState hardTorrent hardFile 225)"
  have c1: "currentTorrent (tick ?lo hardState) = Some ?t1"
    by (rule tick_torrent(1) [OF hard_fields(1-4)])
  have k1: "t_chunks ?t1 = [None, Some 16777216, Some 16777216, Some 16777216, Some 16777216, Some 16777216, Some 16777216]"
    by (simp add: tickSession_proj hard_tickHard_chunks [OF hard_fields(5-8) refl refl])
  have A: "\<exists>t'. currentTorrent (tick ?lo hardState) = Some t' \<and>
       t_hardPaused t' \<and> slotAt (t_chunks t') 0 = None \<and> slotAt (t_chunks t') 1 = Some 16777216 \<and>
       Pause \<in> set (calls (tick ?lo hardState)) \<and> Resume \<notin> set (calls (tick ?lo hardState))"
    using C5_hard_limit [OF hard_fields(1-4) hard_sums(1) hard_exceeded(1)]
    by (simp add: c1 k1 hard_fields) (auto simp add: slotAt_def)
  let ?t2 = "fst (tickSession ?lo hardPausedState hardPausedTorrent hardFile 225)"
  have c2: "currentTorrent (tick ?lo hardPausedState) = Some ?t2"
    by (rule tick_torrent(1) [OF hardPaused_fields(1-4)])
  have k2: "t_chunks ?t2 = [None, Some 16777216, Some 16777216, Some 16777216, Some 16777216, Some 16777216, Some 16777216]"
    by (simp add: tickSession_proj hard_tickHard_chunks [OF hardPaused_fields(5-10)])
  have B: "\<exists>t'. currentTorrent (tick ?lo hardPausedState) = Some t' \<and>
       t_hardPaused t' \<and>
       Pause \<notin> set (calls (tick ?lo hardPausedState)) \<and>
       Resume \<notin> set (calls (tick ?lo hardPausedState))"
    using C5_hard_limit [OF hardPaused_fields(1-4) hard_sums(2) hard_exceeded(1)]
    by (simp add: c2 k2 hardPaused_fields) auto
  let ?t3 = "fst (tickSession ?lo exPausedState exPausedTorrent exFile 6)"
  have c3: "currentTorrent (tick ?lo exPausedState) = Some ?t3"
    by (rule tick_torrent(1) [OF exPaused_guards])
  have k3: "t_chunks ?t3 = [None, None, None, Some 16384, Some 16384, Some 16384]"
    by (simp add: tickSession_proj exPaused_hard)
  have C: "\<exists>t'. currentTorrent (tick ?lo exPausedState) = Some t' \<and>
       \<not> t_hardPaused t' \<and> Resume \<in> set (calls (tick ?lo exPausedState))"
    using C5_hard_limit [OF exPaused_guards hard_sums(4) hard_exceeded(2)]
    by (simp add: c3 k3 exPaused_fields) auto
  let ?t4 = "fst (tickSession ?hi exState exTorrent exFile 6)"
  have c4: "currentTorrent (tick ?hi exState) = Some ?t4"
    by (rule tick_torrent(1) [OF ex_guards])
  have k4: "t_chunks ?t4 = [None, None, None, Some 16384, Some 16384, Some 16384]"
    by (simp add: tickSession_proj ex_hard)
  have D: "\<exists>t'. currentTorrent (tick ?hi exState) = Some t' \<and> \<not> t_hardPaused t' \<and>
       (\<exists>pre post. calls (tick ?hi exState) = pre @ [Pause, Gc, Resume] @ post)"
    using C5_hard_limit [OF ex_guards hard_sums(3) hard_exceeded(3)]
    by (simp add: c4 k4 ex_fields) auto
  have E: "\<exists>t''. currentTorrent (updatePlayback 100 hardPausedState) = Some t'' \<and> \<not> t_hardPaused t'' \<and>
       (\<exists>rest. calls (updatePlayback 100 hardPausedState) = Resume # rest)"
  proof -
    have "\<forall>time. \<bar>time - currentPlaybackTime hardPausedState\<bar> > 5 \<longrightarrow>
        (\<exists>t''. currentTorrent (updatePlayback time hardPausedState) = Some t'' \<and> \<not> t_hardPaused t'' \<and>
               t_chunks t'' = t_chunks hardPausedTorrent \<and> t_mem t'' = t_mem hardPausedTorrent \<and>
               (t_hardPaused hardPausedTorrent \<longrightarrow>
                  (\<exists>rest. calls (updatePlayback time hardPausedState) = calls hardPausedState @ Resume # rest)))"
      using C5_hard_limit [OF hardPaused_fields(1-4) hard_sums(2) hard_exceeded(1)] by blast
    from this [rule_format, of 100] show ?thesis
      by (simp add: hardPaused_fields(11,13,14)) blast
  qed
  show ?thesis
    using A B C D E by blast
qed

text \<open>
  Claim C5 as stated fails at a seek. The session is hard-paused with 112 MiB resident,
  which is not below 80% of 70 MiB; a playback update 100 s away clears the hard-pause
  flag and calls \<open>resume\<close>, and the 112 MiB are still resident.
\<close>

theorem C5_counterexample:
  "t_hardPaused hardPausedTorrent
   \<and> residentBytes hardPausedState = 117440512
   \<and> \<not> (117440512 :: real) < 80 / 100 * (70 * 1024 * 1024)
   \<and> \<bar>100 - currentPlaybackTime hardPausedState\<bar> > 5
   \<and> (\<exists>t''. currentTorrent (updatePlayback 100 hardPausedState) = Some t'' \<and> \<not> t_hardPaused t'')
   \<and> calls (updatePlayback 100 hardPausedState) = [Resume, Critical 6 7]
   \<and> residentBytes (updatePlayback 100 hardPausedState) = 117440512"
proof -
  have c: "calls (updatePlayback 100 hardPausedState) = [Resume, Critical 6 7]"
    by (simp add: updatePlayback_seek [OF hardPaused_fields(1,2)] hardPaused_fields seekCalls_def
        seekPiece_def criticalPieces_def cfg_hard Let_def hardFile_fields)
  have t: "currentTorrent (updatePlayback 100 hardPausedState)
      = Some (hardPausedTorrent\<lparr>t_hardPaused := False, t_paused := False\<rparr>)"
    by (simp add: updatePlayback_seek [OF hardPaused_fields(1,2)] hardPaused_fields)
  have o: "orphans (updatePlayback 100 hardPausedState) = []" "orphans hardPausedState = []"
    by (simp_all add: updatePlayback_def Let_def hardPaused_fields hardPausedState_def hardState_def
        initialState_def)
  show ?thesis
    using c t o
    by (simp add: residentBytes_def hardPaused_fields hard_storeBytes storeBytes_def
        hardPausedTorrent_def hardTorrent_def)
qed

subsection \<open>Soft pause\<close>
















subsection \<open>Seek\<close>








subsection \<open>The current piece at the end of the file\<close>

text \<open>
  For a read head in \<open>[0, file.length]\<close> the current piece is at least
  \<open>filePieceStart\<close> and at most \<open>filePieceEnd + 1\<close>, and at most \<open>filePieceEnd\<close> when
  the read head is before the end of the file.
\<close>

lemma currentPiece_bounds:
  assumes "pl > 0" "0 \<le> cb" "cb \<le> int (f_length fl)"
  shows "filePieceStart pl fl \<le> currentPiece pl fl cb"
    and "currentPiece pl fl cb \<le> filePieceEnd pl fl + 1"
    and "cb < int (f_length fl) \<Longrightarrow> currentPiece pl fl cb \<le> filePieceEnd pl fl"
proof -
  have p: "real pl > 0" using assms(1) by simp
  have "real (f_offset fl) / real pl \<le> real_of_int (int (f_offset fl) + cb) / real pl"
    using assms(2) p by (simp add: divide_right_mono)
  then show "filePieceStart pl fl \<le> currentPiece pl fl cb"
    unfolding filePieceStart_def currentPiece_def by (rule floor_mono)
  have le: "real_of_int (int (f_offset fl) + cb) / real pl \<le> real (f_offset fl + f_length fl) / real pl"
    using assms(3) p by (simp add: divide_right_mono)
  have "\<lfloor>real_of_int (int (f_offset fl) + cb) / real pl\<rfloor> \<le> \<lfloor>real (f_offset fl + f_length fl) / real pl\<rfloor>"
    using le by (rule floor_mono)
  also have "\<dots> \<le> \<lceil>real (f_offset fl + f_length fl) / real pl\<rceil>"
    by (rule floor_le_ceiling)
  finally show "currentPiece pl fl cb \<le> filePieceEnd pl fl + 1"
    by (simp add: currentPiece_def filePieceEnd_def)
  show "currentPiece pl fl cb \<le> filePieceEnd pl fl" if lt: "cb < int (f_length fl)"
  proof -
    have "real_of_int (int (f_offset fl) + cb) < real (f_offset fl + f_length fl)"
      using lt by simp
    then have "real_of_int (int (f_offset fl) + cb) / real pl < real (f_offset fl + f_length fl) / real pl"
      using p by (simp add: divide_strict_right_mono)
    then have "real_of_int \<lfloor>real_of_int (int (f_offset fl) + cb) / real pl\<rfloor>
        < real_of_int \<lceil>real (f_offset fl + f_length fl) / real pl\<rceil>"
      by (meson le_less_trans less_le_trans of_int_floor_le le_of_int_ceiling)
    then show ?thesis
      by (simp add: currentPiece_def filePieceEnd_def)
  qed
qed

lemma currentByte_range:
  "0 \<le> currentByte s fl bps \<and> currentByte s fl bps \<le> int (f_length fl)"
  by (simp add: currentByte_def Let_def)

lemma tickCurrentPiece_bounds:
  assumes "t_pieceLength torrent \<noteq> 0"
  shows "filePieceStart (t_pieceLength torrent) fl \<le> tickCurrentPiece s torrent fl"
    and "tickCurrentPiece s torrent fl \<le> filePieceEnd (t_pieceLength torrent) fl + 1"
  using assms currentByte_range [of s fl "tickBps s torrent fl"]
    currentPiece_bounds(1,2) [of "t_pieceLength torrent" "currentByte s fl (tickBps s torrent fl)" fl]
  by (simp_all add: tickCurrentPiece_def)

lemma aligned_fields:
  "currentTorrent alignedState = Some alignedTorrent" "currentFile alignedState = Some alignedFile"
  "t_pieces alignedTorrent = Some 1024" "t_pieceLength alignedTorrent \<noteq> 0"
  "t_pieceLength alignedTorrent = 1048576"
  "bufferConfigOf alignedTorrent alignedFile = getBufferConfig 1073741824"
  "estimatedBitrate alignedState = 0" "currentPlaybackBytes alignedState = Some 0"
  "currentPlaybackTime alignedState = 3000" "f_offset alignedFile = 0" "f_length alignedFile = 1073741824"
  by (simp_all add: alignedState_def alignedTorrent_def alignedFile_def initialState_def bufferConfigOf_def)

text \<open>
  Claim C8 fails at the end of a file that ends on a piece boundary: the read head is
  clamped to \<open>file.length\<close>, not to the last byte, and the current piece of the tick is
  then one past \<open>filePieceEnd\<close>. Here the file has the pieces 0 to 1023 and the tick
  publishes the current piece 1024.
\<close>

theorem C8_current_piece_past_file_end:
  "\<exists>t' info. currentTorrent (tick \<lparr>heapUsed = 0, hasGc = False\<rparr> alignedState) = Some t' \<and>
      t_bufferInfo t' = Some info \<and> bi_currentPiece info = 1024 \<and>
      filePieceEnd (t_pieceLength alignedTorrent) alignedFile = 1023 \<and> t_pieces alignedTorrent = Some 1024"
proof -
  have "tickCurrentPiece alignedState alignedTorrent alignedFile = 1024"
    by (simp add: tickCurrentPiece_def tickBps_def bytesPerSecond_def currentPiece_def
        currentByte_def aligned_fields cfg_1GiB Let_def)
  moreover have "filePieceEnd (t_pieceLength alignedTorrent) alignedFile = 1023"
    by (simp add: filePieceEnd_def aligned_fields)
  ultimately show ?thesis
    using tick_torrent(1) [OF aligned_fields(1-4), of "\<lparr>heapUsed = 0, hasGc = False\<rparr>"]
      tickSession_info [of "\<lparr>heapUsed = 0, hasGc = False\<rparr>" alignedState alignedTorrent alignedFile 1024]
    by (simp add: aligned_fields)
qed

subsection \<open>Stop\<close>

lemma ex_storeBytes: "storeBytes exTorrent = 98304"
  by (simp add: storeBytes_def exTorrent_def)

text \<open>
  When the kill of the remux child throws, the promise of \<open>torrent:stop\<close> is rejected
  and nothing is stopped, removed or reset, so a second call meets the same child.
\<close>

lemma torrentStop_kill_throws:
  assumes "ffmpegCommand s" "killThrows env"
  shows "torrentStop env s = (Rejected, s\<lparr>calls := calls s @ [KillFfmpeg]\<rparr>)"
    and "fst (torrentStop env (snd (torrentStop env s))) = Rejected"
  using assms by (simp_all add: torrentStop_def)

lemma torrentStop_session:
  assumes "currentTorrent s = Some torrent" "client s" "\<not> (ffmpegCommand s \<and> killThrows env)"
  shows "torrentStop env s =
     (Resolved,
      s\<lparr>ffmpegCommand := False, slidingWindowInterval := False, statusUpdateInterval := False,
        currentTorrent := None, currentFile := None, currentPlaybackTime := 0,
        currentPlaybackBytes := Some 0, estimatedBitrate := 0, lastBytePosition := Some 0,
        lastByteTime := 0, useTranscoding := False,
        calls := calls s @ (if ffmpegCommand s then [KillFfmpeg] else [])
                 @ [Remove (t_infoHash torrent) True],
        orphans := orphans s @ (if removeThrows env then [torrent] else [])\<rparr>)"
  using assms
  by (auto simp add: torrentStop_def Let_def resetState_def stopSlidingWindow_def
      stopStatusUpdates_def)

lemma torrentStop_no_session:
  assumes "currentTorrent s = None" "\<not> (ffmpegCommand s \<and> killThrows env)"
  shows "torrentStop env s =
     (Resolved,
      s\<lparr>ffmpegCommand := False, slidingWindowInterval := False, statusUpdateInterval := False,
        calls := calls s @ (if ffmpegCommand s then [KillFfmpeg] else [])\<rparr>)"
  using assms
  by (auto simp add: torrentStop_def Let_def stopSlidingWindow_def stopStatusUpdates_def)

lemma torrentStop_stopped:
  assumes "currentTorrent s = None" "\<not> ffmpegCommand s" "\<not> slidingWindowInterval s"
    "\<not> statusUpdateInterval s"
  shows "torrentStop env s = (Resolved, s)"
  using assms
  by (simp add: torrentStop_def Let_def stopSlidingWindow_def stopStatusUpdates_def)

text \<open>
  Claim C9, as the code has it. Let the kill of the remux child, when there is one,
  return, and let the client be present when a torrent is. Then two calls of
  \<open>torrent:stop\<close> in succession, the second after the first has settled, both resolve.
  With a session, the first call kills the remux child, stops both intervals, calls
  \<open>remove\<close> with \<open>destroyStore: true\<close> and resets the variables of \<open>resetState\<close>:
  the current torrent and file, the playback time and byte offset, the estimated bitrate,
  the last byte position and time, and \<open>useTranscoding\<close>. The variables
  \<open>isTranscoding\<close> and \<open>actualVideoDuration\<close> keep their values. When \<open>remove\<close> calls
  back, the store is destroyed with the torrent, and the resident bytes are those of the
  orphans there were, none without orphans; when \<open>remove\<close> throws, the store is left as
  it was and the resident bytes are unchanged. The second call, whatever its external
  calls would do, changes nothing.
\<close>

theorem C9_stop_twice:
  assumes "client s \<or> currentTorrent s = None"
      and "\<not> (ffmpegCommand s \<and> killThrows env)"
  shows "fst (torrentStop env s) = Resolved
     \<and> (\<forall>env'. torrentStop env' (snd (torrentStop env s)) = (Resolved, snd (torrentStop env s)))
     \<and> (\<forall>torrent. currentTorrent s = Some torrent \<longrightarrow>
          snd (torrentStop env s) =
            s\<lparr>ffmpegCommand := False, slidingWindowInterval := False, statusUpdateInterval := False,
              currentTorrent := None, currentFile := None, currentPlaybackTime := 0,
              currentPlaybackBytes := Some 0, estimatedBitrate := 0, lastBytePosition := Some 0,
              lastByteTime := 0, useTranscoding := False,
              calls := calls s @ (if ffmpegCommand s then [KillFfmpeg] else [])
                       @ [Remove (t_infoHash torrent) True],
              orphans := orphans s @ (if removeThrows env then [torrent] else [])\<rparr>
          \<and> residentBytes (snd (torrentStop env s))
              = (if removeThrows env then residentBytes s
                 else sum_list (map storeBytes (orphans s))))
     \<and> (currentTorrent s = None \<longrightarrow>
          snd (torrentStop env s) =
            s\<lparr>ffmpegCommand := False, slidingWindowInterval := False, statusUpdateInterval := False,
              calls := calls s @ (if ffmpegCommand s then [KillFfmpeg] else [])\<rparr>)
     \<and> isTranscoding (snd (torrentStop env s)) = isTranscoding s
     \<and> actualVideoDuration (snd (torrentStop env s)) = actualVideoDuration s
     \<and> (\<not> removeThrows env \<and> orphans s = [] \<longrightarrow>
          (\<forall>env'. residentBytes (snd (torrentStop env' (snd (torrentStop env s)))) = 0))"
proof (cases "currentTorrent s")
  case None
  note n = torrentStop_no_session [OF None assms(2)]
  have st: "torrentStop env' (snd (torrentStop env s)) = (Resolved, snd (torrentStop env s))" for env'
    by (rule torrentStop_stopped) (simp_all add: n None)
  have r: "orphans s = [] \<longrightarrow> residentBytes (snd (torrentStop env s)) = 0"
    by (simp add: n residentBytes_def None)
  show ?thesis
    using None r by (simp add: st) (simp add: n)
next
  case (Some torrent)
  then have c: "client s" using assms(1) by simp
  note n = torrentStop_session [OF Some c assms(2)]
  have st: "torrentStop env' (snd (torrentStop env s)) = (Resolved, snd (torrentStop env s))" for env'
    by (rule torrentStop_stopped) (simp_all add: n)
  have r: "residentBytes (snd (torrentStop env s))
      = (if removeThrows env then residentBytes s else sum_list (map storeBytes (orphans s)))"
    by (simp add: n residentBytes_def Some)
  show ?thesis
    using Some r by (simp add: st) (simp add: n)
qed

text \<open>
  The theorem of C9 at the example session with a remux child and a running scheduler,
  where \<open>remove\<close> calls back: 98304 bytes are resident before the first call and none
  after the second, and every variable has the value it has when the module is loaded,
  but for the client. Without a session the call stops the status interval and resolves.
\<close>

theorem C9_witness:
  "fst (torrentStop \<lparr>killThrows = False, removeThrows = False\<rparr>
          (exState\<lparr>ffmpegCommand := True, slidingWindowInterval := True\<rparr>)) = Resolved
   \<and> residentBytes (exState\<lparr>ffmpegCommand := True, slidingWindowInterval := True\<rparr>) = 98304
   \<and> snd (torrentStop \<lparr>killThrows = False, removeThrows = False\<rparr>
          (exState\<lparr>ffmpegCommand := True, slidingWindowInterval := True\<rparr>))
        = initialState\<lparr>client := True, calls := [KillFfmpeg, Remove ''h'' True]\<rparr>
   \<and> torrentStop \<lparr>killThrows = True, removeThrows = True\<rparr>
          (initialState\<lparr>client := True, calls := [KillFfmpeg, Remove ''h'' True]\<rparr>)
        = (Resolved, initialState\<lparr>client := True, calls := [KillFfmpeg, Remove ''h'' True]\<rparr>)
   \<and> residentBytes (initialState\<lparr>client := True, calls := [KillFfmpeg, Remove ''h'' True]\<rparr>) = 0
   \<and> torrentStop \<lparr>killThrows = True, removeThrows = False\<rparr> (initialState\<lparr>statusUpdateInterval := True\<rparr>)
        = (Resolved, initialState)"
proof -
  let ?s = "exState\<lparr>ffmpegCommand := True, slidingWindowInterval := True\<rparr>"
  let ?n = "initialState\<lparr>statusUpdateInterval := True\<rparr>"
  have n: "client ?n \<or> currentTorrent ?n = None"
      "\<not> (ffmpegCommand ?n \<and> killThrows \<lparr>killThrows = True, removeThrows = False\<rparr>)"
    by (simp_all add: initialState_def)
  have ns: "torrentStop \<lparr>killThrows = True, removeThrows = False\<rparr> ?n = (Resolved, initialState)"
    using C9_stop_twice [OF n]
    by (simp add: prod_eq_iff) (simp add: initialState_def)
  let ?env = "\<lparr>killThrows = False, removeThrows = False\<rparr>"
  have c: "client ?s \<or> currentTorrent ?s = None" by (simp add: exState_def)
  have k: "\<not> (ffmpegCommand ?s \<and> killThrows ?env)" by simp
  have t: "currentTorrent ?s = Some exTorrent" by (simp add: exState_def)
  have r: "residentBytes ?s = 98304"
    by (simp add: residentBytes_def t ex_storeBytes exState_def initialState_def)
  have f: "t_infoHash exTorrent = ''h''"
    by (simp add: exTorrent_def)
  have e: "?s\<lparr>ffmpegCommand := False, slidingWindowInterval := False, statusUpdateInterval := False,
              currentTorrent := None, currentFile := None, currentPlaybackTime := 0,
              currentPlaybackBytes := Some 0, estimatedBitrate := 0, lastBytePosition := Some 0,
              lastByteTime := 0, useTranscoding := False,
              calls := [KillFfmpeg, Remove ''h'' True], orphans := []\<rparr>
        = initialState\<lparr>client := True, calls := [KillFfmpeg, Remove ''h'' True]\<rparr>"
    by (simp add: exState_def initialState_def)
  have o: "orphans ?s = []" "calls ?s = []" "ffmpegCommand ?s"
    by (simp_all add: exState_def initialState_def)
  have s': "snd (torrentStop ?env ?s) = initialState\<lparr>client := True, calls := [KillFfmpeg, Remove ''h'' True]\<rparr>"
    using C9_stop_twice [OF c k] t f o e by simp
  show ?thesis
    using C9_stop_twice [OF c k] r s' o ns by (simp add: residentBytes_def initialState_def)
qed

text \<open>
  Claim C9 as stated fails in two ways that the code intends. First, \<open>resetState\<close> leaves
  out \<open>actualVideoDuration\<close>, which no other code resets: after two stops it is still the
  5400 s of the session and not the 0 of a fresh module. Second, when \<open>remove\<close> throws,
  the handler resets and resolves all the same: both calls resolve, and the 98304 bytes
  of the store are still resident.
\<close>

theorem C9_counterexample:
  "fst (torrentStop \<lparr>killThrows = False, removeThrows = False\<rparr> (exState\<lparr>actualVideoDuration := 5400\<rparr>)) = Resolved
   \<and> fst (torrentStop \<lparr>killThrows = False, removeThrows = False\<rparr>
        (snd (torrentStop \<lparr>killThrows = False, removeThrows = False\<rparr> (exState\<lparr>actualVideoDuration := 5400\<rparr>)))) = Resolved
   \<and> actualVideoDuration (snd (torrentStop \<lparr>killThrows = False, removeThrows = False\<rparr>
        (snd (torrentStop \<lparr>killThrows = False, removeThrows = False\<rparr> (exState\<lparr>actualVideoDuration := 5400\<rparr>))))) = 5400
   \<and> actualVideoDuration initialState = 0
   \<and> fst (torrentStop \<lparr>killThrows = False, removeThrows = True\<rparr> exState) = Resolved
   \<and> fst (torrentStop \<lparr>killThrows = False, removeThrows = True\<rparr>
        (snd (torrentStop \<lparr>killThrows = False, removeThrows = True\<rparr> exState))) = Resolved
   \<and> currentTorrent (snd (torrentStop \<lparr>killThrows = False, removeThrows = True\<rparr> exState)) = None
   \<and> residentBytes (snd (torrentStop \<lparr>killThrows = False, removeThrows = True\<rparr>
        (snd (torrentStop \<lparr>killThrows = False, removeThrows = True\<rparr> exState)))) = 98304"
  by (simp add: torrentStop_def Let_def resetState_def stopSlidingWindow_def stopStatusUpdates_def
      exState_def initialState_def residentBytes_def ex_storeBytes)

subsection \<open>A negative buffer target\<close>

text \<open>
  Claim C10. For every file of more than 52848230400 bytes the estimated duration is
  7200 s, ten seconds at the estimated rate exceed 70 MiB, and \<open>getBufferConfig\<close>
  returns \<open>aheadBytes = min(maxBufferSeconds \<times> bps, 70 MiB - 10 \<times> bps)\<close>, which is
  negative, and a negative \<open>aheadSeconds\<close>; \<open>aheadBytes\<close> is negative for no smaller
  file. The scheduler takes the negative \<open>aheadSeconds\<close> as its target, so on every
  tick that passes its guards with this configuration the buffer-full test holds, and the
  torrent is paused after the tick unless a remux is consuming.
\<close>

theorem C10_negative_ahead:
  assumes "fs > 52848230400"
  shows "cfg_aheadBytes (getBufferConfig fs)
           = min (maxBufferSeconds (BUFFER_CONFIG (detectQualityTier fs))
                    * cfg_bytesPerSecond (getBufferConfig fs))
                 (70 * 1024 * 1024 - 10 * cfg_bytesPerSecond (getBufferConfig fs))
     \<and> cfg_bytesPerSecond (getBufferConfig fs) = real fs / 7200
     \<and> 10 * cfg_bytesPerSecond (getBufferConfig fs) > 70 * 1024 * 1024
     \<and> cfg_aheadBytes (getBufferConfig fs) < 0
     \<and> (\<exists>x. x < 0 \<and> cfg_aheadSeconds (getBufferConfig fs) = Num x)
     \<and> targetBufferSeconds (getBufferConfig fs) = cfg_aheadSeconds (getBufferConfig fs)
     \<and> (\<forall>fs'. cfg_aheadBytes (getBufferConfig fs') < 0 \<longleftrightarrow> fs' > 52848230400)
     \<and> (\<forall>rt s torrent fl n.
           currentTorrent s = Some torrent \<and> currentFile s = Some fl \<and> t_pieces torrent = Some n
           \<and> t_pieceLength torrent \<noteq> 0 \<and> bufferConfigOf torrent fl = getBufferConfig fs \<longrightarrow>
           isBufferFull (tickAhead rt s torrent fl n) (getBufferConfig fs)
           \<and> (\<exists>t'. currentTorrent (tick rt s) = Some t' \<and>
                 (\<not> isTranscoding s \<longrightarrow> t_paused t' \<or> t_hardPaused t')))"
proof -
  have r: "real fs > 52848230400" using assms by linarith
  note c = cfg_large [OF assms]
  have t: "detectQualityTier fs = T4K"
    using r by (simp add: detectQualityTier_def Let_def)
  have 1: "cfg_aheadBytes (getBufferConfig fs)
           = min (maxBufferSeconds (BUFFER_CONFIG (detectQualityTier fs))
                    * cfg_bytesPerSecond (getBufferConfig fs))
                 (70 * 1024 * 1024 - 10 * cfg_bytesPerSecond (getBufferConfig fs))"
    using r by (simp add: c t min_def)
  have 2: "cfg_bytesPerSecond (getBufferConfig fs) = real fs / 7200"
    by (simp add: c)
  have 3: "10 * cfg_bytesPerSecond (getBufferConfig fs) > 70 * 1024 * 1024"
    using r by (simp add: c)
  have 4: "cfg_aheadBytes (getBufferConfig fs) < 0"
    using r by (simp add: c)
  have neg: "(73400320 - 10 * (real fs / 7200)) / (real fs / 7200) < 0"
    using r by (simp add: divide_less_0_iff)
  have 5: "\<exists>x. x < 0 \<and> cfg_aheadSeconds (getBufferConfig fs) = Num x"
    using neg by (simp add: c)
  have 6: "targetBufferSeconds (getBufferConfig fs) = cfg_aheadSeconds (getBufferConfig fs)"
    using 5 by (auto simp add: targetBufferSeconds_def)
  have 7: "\<forall>fs'. cfg_aheadBytes (getBufferConfig fs') < 0 \<longleftrightarrow> fs' > 52848230400"
    by (simp add: aheadBytes_negative_iff)
  have 8: "isBufferFull (tickAhead rt s torrent fl n) (getBufferConfig fs)
           \<and> (\<exists>t'. currentTorrent (tick rt s) = Some t' \<and>
                 (\<not> isTranscoding s \<longrightarrow> t_paused t' \<or> t_hardPaused t'))"
    if g: "currentTorrent s = Some torrent" "currentFile s = Some fl" "t_pieces torrent = Some n"
      "t_pieceLength torrent \<noteq> 0" and b: "bufferConfigOf torrent fl = getBufferConfig fs"
    for rt s torrent fl n
  proof -
    have "tickBps s torrent fl > 0"
      using r by (simp add: tickBps_def bytesPerSecond_def b c)
    then obtain x where x: "x \<ge> 0" "tickAhead rt s torrent fl n = Num x"
      using tickAhead_nonneg by blast
    obtain y where y: "y < 0" "cfg_aheadSeconds (getBufferConfig fs) = Num y"
      using 5 by blast
    have full: "isBufferFull (tickAhead rt s torrent fl n) (getBufferConfig fs)"
      using x y 6 by (simp add: isBufferFull_def)
    have nres: "\<not> jslt (tickAhead rt s torrent fl n) (jshalf (targetBufferSeconds (getBufferConfig fs)))"
      using x y 6 by simp
    have "\<not> isTranscoding s \<longrightarrow> t_paused (fst (tickSession rt s torrent fl n))
            \<or> t_hardPaused (fst (tickSession rt s torrent fl n))"
      using tickSession_paused [of rt s torrent fl n] full nres unfolding b
      by (auto split: if_splits)
    then show ?thesis
      using full tick_torrent(1) [OF g, of rt] by simp
  qed
  show ?thesis
    using 1 2 3 4 5 6 7 8 by blast
qed

lemma big_fields:
  "currentTorrent bigState = Some bigTorrent" "currentFile bigState = Some bigFile"
  "t_pieces bigTorrent = Some 3577" "t_pieceLength bigTorrent \<noteq> 0"
  "bufferConfigOf bigTorrent bigFile = getBufferConfig 60000000000"
  "isTranscoding bigState = False"
  by (simp_all add: bigState_def bigTorrent_def bigFile_def initialState_def bufferConfigOf_def)

text \<open>
  The theorem of C10 at a file of 60 GB, and at a tick of a fresh session on that file.
\<close>

theorem C10_witness:
  "cfg_aheadBytes (getBufferConfig 60000000000) < 0
   \<and> (\<exists>x. x < 0 \<and> cfg_aheadSeconds (getBufferConfig 60000000000) = Num x)
   \<and> targetBufferSeconds (getBufferConfig 60000000000) = cfg_aheadSeconds (getBufferConfig 60000000000)
   \<and> isBufferFull (tickAhead \<lparr>heapUsed = 0, hasGc = False\<rparr> bigState bigTorrent bigFile 3577)
         (getBufferConfig 60000000000)
   \<and> (\<exists>t'. currentTorrent (tick \<lparr>heapUsed = 0, hasGc = False\<rparr> bigState) = Some t'
          \<and> (t_paused t' \<or> t_hardPaused t'))"
proof -
  have "(60000000000::nat) > 52848230400" by simp
  from C10_negative_ahead [OF this] big_fields show ?thesis
    by (metis (no_types, lifting))
qed

end
